theory Spec2Isabelle
  imports Main "HOL-Library.Sublist"
begin

section \<open>Values, exceptions and files\<close>

text \<open>
  The script \<^verbatim>\<open>automate-machine-ui-fixes.py\<close> works on values that come out of
  \<^verbatim>\<open>json.load\<close> and \<^verbatim>\<open>response.json()\<close>: \<^verbatim>\<open>None\<close>, booleans, integers,
  strings, lists, and dictionaries with string keys in insertion order. Floating-point
  numbers are left out. A string is a list of characters with code points below 256
  (ASCII and Latin-1).
\<close>

datatype json =
    JNull
  | JBool bool
  | JInt int
  | JStr string
  | JArr "json list"
  | JObj "(string \<times> json) list"

text \<open>
  The exceptions the script can meet, each with the text that identifies it.
  \<open>Unmodelled\<close> is no exception of Python: it ends a run of the model on an input outside
  the values above (a floating-point literal, a character beyond U+00FF).
\<close>

datatype exn =
    KeyError string
  | AttributeError string
  | TypeError string
  | JSONDecodeError string
  | OSError string
  | RecursionError
  | Unmodelled string

text \<open>
  What is at a path. \<open>Missing\<close>: \<^verbatim>\<open>Path.exists()\<close> is \<^verbatim>\<open>False\<close>. \<open>Inaccessible msg\<close>: the
  \<^verbatim>\<open>stat\<close> call fails with an error that \<^verbatim>\<open>exists()\<close> passes on as an \<^verbatim>\<open>OSError\<close> with
  text \<open>msg\<close> (a name too long, a directory that may not be searched). \<open>File text\<close>: a file
  with this text. \<open>Unreadable msg\<close>: something that exists but that \<^verbatim>\<open>open(p, 'r')\<close> cannot
  read (a directory, a file without read permission).
  \<open>write_error p = Some msg\<close> says that \<^verbatim>\<open>open(p, 'w')\<close> raises an \<^verbatim>\<open>OSError\<close> with text
  \<open>msg\<close> (missing directory, no permission, name too long).
\<close>

datatype node = Missing | Inaccessible string | File string | Unreadable string

record filesystem =
  node_at :: "string \<Rightarrow> node"
  write_error :: "string \<Rightarrow> string option"

text \<open>
  The module-level configuration: \<open>schema_dir\<close> and \<open>output_dir\<close> are the string forms of
  the two \<^verbatim>\<open>Path\<close> objects, and \<open>path_join d name\<close> is \<^verbatim>\<open>str(d / name)\<close> of \<^verbatim>\<open>pathlib\<close>,
  taken as given.
\<close>

record config =
  schema_dir :: string
  output_dir :: string
  path_join :: "string \<Rightarrow> string \<Rightarrow> string"

text \<open>
  The outcome of one \<^verbatim>\<open>requests.post\<close>: an exception of the transport, with its text
  \<^verbatim>\<open>str(e)\<close>, or a response with its status, reason phrase and URL, and with what
  \<^verbatim>\<open>response.json()\<close> gives for its body: the text of the exception it raises, or the
  parsed value.
\<close>

record response =
  status_code :: nat
  reason :: string
  url :: string
  json_body :: "string + json"

datatype http_result =
    NetworkError string
  | TimedOut string
  | Response response

section \<open>Python operations on the values\<close>

definition exn_bind :: "exn + 'a \<Rightarrow> ('a \<Rightarrow> exn + 'b) \<Rightarrow> exn + 'b" where
  "exn_bind m f = (case m of Inl e \<Rightarrow> Inl e | Inr x \<Rightarrow> f x)"

text \<open>Truth value of a value in a condition.\<close>

fun truthy :: "json \<Rightarrow> bool" where
  "truthy JNull = False"
| "truthy (JBool b) = b"
| "truthy (JInt i) = (i \<noteq> 0)"
| "truthy (JStr s) = (s \<noteq> [])"
| "truthy (JArr xs) = (xs \<noteq> [])"
| "truthy (JObj kvs) = (kvs \<noteq> [])"

text \<open>\<^verbatim>\<open>d.get(k, default)\<close>: only a dictionary has the method.\<close>

fun py_get :: "json \<Rightarrow> string \<Rightarrow> json \<Rightarrow> exn + json" where
  "py_get (JObj kvs) k d = Inr (case map_of kvs k of Some v \<Rightarrow> v | None \<Rightarrow> d)"
| "py_get _ k d = Inl (AttributeError ''get'')"

text \<open>\<^verbatim>\<open>d[k]\<close> with a string key.\<close>

fun py_getitem :: "json \<Rightarrow> string \<Rightarrow> exn + json" where
  "py_getitem (JObj kvs) k = (case map_of kvs k of Some v \<Rightarrow> Inr v | None \<Rightarrow> Inl (KeyError k))"
| "py_getitem _ k = Inl (TypeError ''getitem'')"

text \<open>The elements a \<^verbatim>\<open>for\<close> loop visits.\<close>

fun py_iter :: "json \<Rightarrow> exn + json list" where
  "py_iter (JArr xs) = Inr xs"
| "py_iter (JStr s) = Inr (map (\<lambda>c. JStr [c]) s)"
| "py_iter (JObj kvs) = Inr (map (\<lambda>kv. JStr (fst kv)) kvs)"
| "py_iter _ = Inl (TypeError ''iter'')"

fun py_len :: "json \<Rightarrow> exn + int" where
  "py_len (JArr xs) = Inr (int (length xs))"
| "py_len (JStr s) = Inr (int (length s))"
| "py_len (JObj kvs) = Inr (int (length kvs))"
| "py_len _ = Inl (TypeError ''len'')"

text \<open>\<^verbatim>\<open>sub in s\<close> on strings.\<close>

definition contains :: "string \<Rightarrow> string \<Rightarrow> bool" where
  "contains sub s = sublist sub s"

text \<open>\<^verbatim>\<open>k in v\<close> for a string \<open>k\<close>.\<close>

fun py_in :: "string \<Rightarrow> json \<Rightarrow> exn + bool" where
  "py_in k (JObj kvs) = Inr (k \<in> set (map fst kvs))"
| "py_in k (JArr xs) = Inr (JStr k \<in> set xs)"
| "py_in k (JStr s) = Inr (contains k s)"
| "py_in k _ = Inl (TypeError ''in'')"

text \<open>
  \<^verbatim>\<open>s.lower()\<close>: the letters A to Z, and the capital letters of Latin-1 (U+00C0 to U+00DE
  without the multiplication sign), go to their small forms.
\<close>

definition upper_letters :: string where
  "upper_letters = ''ABCDEFGHIJKLMNOPQRSTUVWXYZ'' @ [CHR 0xC0, CHR 0xC1, CHR 0xC2, CHR 0xC3, CHR 0xC4, CHR 0xC5, CHR 0xC6, CHR 0xC7, CHR 0xC8, CHR 0xC9, CHR 0xCA, CHR 0xCB, CHR 0xCC, CHR 0xCD, CHR 0xCE, CHR 0xCF, CHR 0xD0, CHR 0xD1, CHR 0xD2, CHR 0xD3, CHR 0xD4, CHR 0xD5, CHR 0xD6, CHR 0xD8, CHR 0xD9, CHR 0xDA, CHR 0xDB, CHR 0xDC, CHR 0xDD, CHR 0xDE]"

definition lower_letters :: string where
  "lower_letters = ''abcdefghijklmnopqrstuvwxyz'' @ [CHR 0xE0, CHR 0xE1, CHR 0xE2, CHR 0xE3, CHR 0xE4, CHR 0xE5, CHR 0xE6, CHR 0xE7, CHR 0xE8, CHR 0xE9, CHR 0xEA, CHR 0xEB, CHR 0xEC, CHR 0xED, CHR 0xEE, CHR 0xEF, CHR 0xF0, CHR 0xF1, CHR 0xF2, CHR 0xF3, CHR 0xF4, CHR 0xF5, CHR 0xF6, CHR 0xF8, CHR 0xF9, CHR 0xFA, CHR 0xFB, CHR 0xFC, CHR 0xFD, CHR 0xFE]"

definition char_lower :: "char \<Rightarrow> char" where
  "char_lower c =
     (case map_of (zip upper_letters lower_letters) c of
        Some l \<Rightarrow> l
      | None \<Rightarrow> c)"

definition lower :: "string \<Rightarrow> string" where
  "lower s = map char_lower s"

section \<open>Values as text\<close>

text \<open>Decimal digits of a natural number and of an integer, as \<^verbatim>\<open>str\<close> gives them.\<close>

fun decimal :: "nat \<Rightarrow> string" where
  "decimal n =
     (if n < 10 then [''0123456789'' ! n]
      else decimal (n div 10) @ [''0123456789'' ! (n mod 10)])"

declare decimal.simps [simp del]

definition int_text :: "int \<Rightarrow> string" where
  "int_text i = (if i < 0 then ''-'' @ decimal (nat (- i)) else decimal (nat i))"

definition hex2 :: "char \<Rightarrow> string" where
  "hex2 c =
     (let n = (of_char c :: nat)
      in [''0123456789abcdef'' ! (n div 16), ''0123456789abcdef'' ! (n mod 16)])"

text \<open>
  \<^verbatim>\<open>json.dumps(v, indent=2)\<close> with the default \<^verbatim>\<open>ensure_ascii\<close>: every character outside
  the printable ASCII range is escaped.
\<close>

definition json_escape :: "char \<Rightarrow> string" where
  "json_escape c =
     (if c = CHR 0x22 then [CHR 0x5C, CHR 0x22]
      else if c = CHR 0x5C then [CHR 0x5C, CHR 0x5C]
      else if c = CHR 0x0A then [CHR 0x5C, CHR ''n'']
      else if c = CHR 0x0D then [CHR 0x5C, CHR ''r'']
      else if c = CHR 0x09 then [CHR 0x5C, CHR ''t'']
      else if c = CHR 0x08 then [CHR 0x5C, CHR ''b'']
      else if c = CHR 0x0C then [CHR 0x5C, CHR ''f'']
      else if (of_char c :: nat) < 32 \<or> 126 < (of_char c :: nat)
        then [CHR 0x5C, CHR ''u'', CHR ''0'', CHR ''0''] @ hex2 c
      else [c])"

definition json_string :: "string \<Rightarrow> string" where
  "json_string s = [CHR 0x22] @ concat (map json_escape s) @ [CHR 0x22]"

fun join_with :: "string \<Rightarrow> string list \<Rightarrow> string" where
  "join_with sep [] = []"
| "join_with sep [x] = x"
| "join_with sep (x # y # ys) = x @ sep @ join_with sep (y # ys)"

definition newline_indent :: "nat \<Rightarrow> string" where
  "newline_indent level = CHR 0x0A # replicate (2 * level) CHR '' ''"

fun dumps_at :: "nat \<Rightarrow> json \<Rightarrow> string" where
  "dumps_at level JNull = ''null''"
| "dumps_at level (JBool b) = (if b then ''true'' else ''false'')"
| "dumps_at level (JInt i) = int_text i"
| "dumps_at level (JStr s) = json_string s"
| "dumps_at level (JArr xs) =
     (if xs = [] then ''[]''
      else ''['' @ newline_indent (Suc level)
           @ join_with ('','' @ newline_indent (Suc level)) (map (dumps_at (Suc level)) xs)
           @ newline_indent level @ '']'')"
| "dumps_at level (JObj kvs) =
     (if kvs = [] then ''{}''
      else ''{'' @ newline_indent (Suc level)
           @ join_with ('','' @ newline_indent (Suc level))
               (map (\<lambda>kv. json_string (fst kv) @ '': '' @ dumps_at (Suc level) (snd kv)) kvs)
           @ newline_indent level @ ''}'')"

definition json_dumps :: "json \<Rightarrow> string" where
  "json_dumps v = dumps_at 0 v"

text \<open>
  Python's \<^verbatim>\<open>repr\<close> of a string and \<^verbatim>\<open>str\<close> of a value, which an f-string inserts: a
  string as it is, anything else as \<^verbatim>\<open>repr\<close> shows it.
\<close>

definition repr_escape :: "char \<Rightarrow> char \<Rightarrow> string" where
  "repr_escape quote c =
     (if c = quote \<or> c = CHR 0x5C then [CHR 0x5C, c]
      else if c = CHR 0x0A then [CHR 0x5C, CHR ''n'']
      else if c = CHR 0x0D then [CHR 0x5C, CHR ''r'']
      else if c = CHR 0x09 then [CHR 0x5C, CHR ''t'']
      else if (of_char c :: nat) < 32 \<or> (127 \<le> (of_char c :: nat) \<and> (of_char c :: nat) \<le> 160)
              \<or> (of_char c :: nat) = 173
        then [CHR 0x5C, CHR ''x''] @ hex2 c
      else [c])"

definition repr_string :: "string \<Rightarrow> string" where
  "repr_string s =
     (let quote = (if CHR 0x27 \<in> set s \<and> CHR 0x22 \<notin> set s then CHR 0x22 else CHR 0x27)
      in [quote] @ concat (map (repr_escape quote) s) @ [quote])"

fun py_repr :: "json \<Rightarrow> string" where
  "py_repr JNull = ''None''"
| "py_repr (JBool b) = (if b then ''True'' else ''False'')"
| "py_repr (JInt i) = int_text i"
| "py_repr (JStr s) = repr_string s"
| "py_repr (JArr xs) = ''['' @ join_with '', '' (map py_repr xs) @ '']''"
| "py_repr (JObj kvs) =
     ''{'' @ join_with '', '' (map (\<lambda>kv. repr_string (fst kv) @ '': '' @ py_repr (snd kv)) kvs) @ ''}''"

definition py_str :: "json \<Rightarrow> string" where
  "py_str v = (case v of JStr s \<Rightarrow> s | _ \<Rightarrow> py_repr v)"

section \<open>Writing an arbitrary argument with \<^verbatim>\<open>json.dump\<close>\<close>

text \<open>
  \<^verbatim>\<open>save_schema\<close> passes whatever its caller hands it to \<^verbatim>\<open>json.dump\<close>: besides the values
  above, tuples, dictionaries with keys that are no strings, and objects of other classes
  (\<open>PObject\<close> with the class name). \<open>of_json\<close> is the same value at this type.
\<close>

datatype pyval =
    PNone
  | PBool bool
  | PInt int
  | PStr string
  | PList "pyval list"
  | PTuple "pyval list"
  | PDict "(pyval \<times> pyval) list"
  | PObject string


text \<open>
  The encoder writes chunk by chunk and raises when it reaches a key or a value it cannot
  encode: \<open>py_dump\<close> gives the text written and the exception, if any. \<open>emit_then\<close> runs
  the second part only after the first part has ended without exception.
\<close>

definition emit_then :: "string \<times> exn option \<Rightarrow> string \<times> exn option \<Rightarrow> string \<times> exn option" where
  "emit_then first second =
     (case snd first of
        Some e \<Rightarrow> first
      | None \<Rightarrow> (fst first @ fst second, snd second))"

text \<open>The key of a dictionary item: strings, booleans, \<^verbatim>\<open>None\<close> and integers are accepted.\<close>

fun key_text :: "pyval \<Rightarrow> exn + string" where
  "key_text (PStr s) = Inr s"
| "key_text (PBool b) = Inr (if b then ''true'' else ''false'')"
| "key_text PNone = Inr ''null''"
| "key_text (PInt i) = Inr (int_text i)"
| "key_text _ = Inl (TypeError ''keys must be str, int, float, bool or None'')"

fun py_dump :: "nat \<Rightarrow> pyval \<Rightarrow> string \<times> exn option"
  and dump_items :: "nat \<Rightarrow> pyval list \<Rightarrow> string \<times> exn option"
  and dump_pairs :: "nat \<Rightarrow> bool \<Rightarrow> (pyval \<times> pyval) list \<Rightarrow> string \<times> exn option" where
  "py_dump level PNone = (''null'', None)"
| "py_dump level (PBool b) = (if b then ''true'' else ''false'', None)"
| "py_dump level (PInt i) = (int_text i, None)"
| "py_dump level (PStr s) = (json_string s, None)"
| "py_dump level (PObject cls) =
     ([], Some (TypeError (''Object of type '' @ cls @ '' is not JSON serializable'')))"
| "py_dump level (PList xs) =
     (if xs = [] then (''[]'', None)
      else emit_then (''['' @ newline_indent (Suc level), None)
             (emit_then (dump_items (Suc level) xs) (newline_indent level @ '']'', None)))"
| "py_dump level (PTuple xs) =
     (if xs = [] then (''[]'', None)
      else emit_then (''['' @ newline_indent (Suc level), None)
             (emit_then (dump_items (Suc level) xs) (newline_indent level @ '']'', None)))"
| "py_dump level (PDict kvs) =
     (if kvs = [] then (''{}'', None)
      else emit_then (''{'' @ newline_indent (Suc level), None)
             (emit_then (dump_pairs (Suc level) True kvs) (newline_indent level @ ''}'', None)))"
| "dump_items level [] = ([], None)"
| "dump_items level [x] = py_dump level x"
| "dump_items level (x # y # ys) =
     emit_then (py_dump level x)
       (emit_then ('','' @ newline_indent level, None) (dump_items level (y # ys)))"
| "dump_pairs level first [] = ([], None)"
| "dump_pairs level first (kv # kvs) =
     (case key_text (fst kv) of
        Inl e \<Rightarrow> ([], Some e)
      | Inr key \<Rightarrow>
          emit_then
            ((if first then [] else '','' @ newline_indent level) @ json_string key @ '': '', None)
            (emit_then (py_dump level (snd kv)) (dump_pairs level False kvs)))"

section \<open>Reading text with \<^verbatim>\<open>json.load\<close>\<close>

fun index_of :: "char \<Rightarrow> string \<Rightarrow> nat option" where
  "index_of c [] = None"
| "index_of c (d # ds) = (if c = d then Some 0 else map_option Suc (index_of c ds))"

definition digit_value :: "char \<Rightarrow> nat option" where
  "digit_value c = index_of c ''0123456789''"

definition is_digit :: "char \<Rightarrow> bool" where
  "is_digit c = (digit_value c \<noteq> None)"

definition hex_value :: "char \<Rightarrow> nat option" where
  "hex_value c =
     (case index_of c ''0123456789abcdef'' of
        Some n \<Rightarrow> Some n
      | None \<Rightarrow> map_option (\<lambda>n. n + 10) (index_of c ''ABCDEF''))"

definition hex_code :: "char \<Rightarrow> char \<Rightarrow> char \<Rightarrow> char \<Rightarrow> nat option" where
  "hex_code a b c d =
     (case (hex_value a, hex_value b, hex_value c, hex_value d) of
        (Some w, Some x, Some y, Some z) \<Rightarrow> Some (((w * 16 + x) * 16 + y) * 16 + z)
      | _ \<Rightarrow> None)"

definition is_ws :: "char \<Rightarrow> bool" where
  "is_ws c = (c = CHR '' '' \<or> c = CHR 0x09 \<or> c = CHR 0x0A \<or> c = CHR 0x0D)"

definition skip_ws :: "string \<Rightarrow> string" where
  "skip_ws s = dropWhile is_ws s"

definition unescape :: "char \<Rightarrow> char option" where
  "unescape e =
     (if e = CHR 0x22 then Some (CHR 0x22)
      else if e = CHR 0x5C then Some (CHR 0x5C)
      else if e = CHR ''/'' then Some (CHR ''/'')
      else if e = CHR ''b'' then Some (CHR 0x08)
      else if e = CHR ''f'' then Some (CHR 0x0C)
      else if e = CHR ''n'' then Some (CHR 0x0A)
      else if e = CHR ''r'' then Some (CHR 0x0D)
      else if e = CHR ''t'' then Some (CHR 0x09)
      else None)"

definition push :: "char \<Rightarrow> exn + string \<times> string \<Rightarrow> exn + string \<times> string" where
  "push c r = (case r of Inl e \<Rightarrow> Inl e | Inr (str, rest) \<Rightarrow> Inr (c # str, rest))"

text \<open>
  The characters of a string after its opening quote, up to the closing quote, and the text
  that follows. A raw control character is refused, as the strict decoder does.
\<close>

fun scan_string :: "string \<Rightarrow> exn + string \<times> string" where
  "scan_string [] = Inl (JSONDecodeError ''Unterminated string'')"
| "scan_string (c # s) =
     (if c = CHR 0x22 then Inr ([], s)
      else if c = CHR 0x5C then
        (case s of
           [] \<Rightarrow> Inl (JSONDecodeError ''Unterminated string'')
         | e # r \<Rightarrow>
             if e = CHR ''u'' then
               (case r of
                  h1 # h2 # h3 # h4 # rest \<Rightarrow>
                    (case hex_code h1 h2 h3 h4 of
                       None \<Rightarrow> Inl (JSONDecodeError ''Invalid uXXXX escape'')
                     | Some code \<Rightarrow>
                         if code < 256 then push (char_of code) (scan_string rest)
                         else Inl (Unmodelled ''character beyond U+00FF''))
                | _ \<Rightarrow> Inl (JSONDecodeError ''Invalid uXXXX escape''))
             else
               (case unescape e of
                  None \<Rightarrow> Inl (JSONDecodeError ''Invalid escape'')
                | Some c' \<Rightarrow> push c' (scan_string r)))
      else if (of_char c :: nat) < 32 then Inl (JSONDecodeError ''Invalid control character'')
      else push c (scan_string s))"

text \<open>
  A number: an optional minus sign, then \<^verbatim>\<open>0\<close> or a digit string without leading zero.
  When a fraction or an exponent follows, the literal is a float.
\<close>

definition digits_value :: "string \<Rightarrow> nat" where
  "digits_value ds = foldl (\<lambda>a d. 10 * a + the (digit_value d)) 0 ds"

definition starts_fraction :: "string \<Rightarrow> bool" where
  "starts_fraction s = (case s of p # d # _ \<Rightarrow> p = CHR ''.'' \<and> is_digit d | _ \<Rightarrow> False)"

definition starts_exponent :: "string \<Rightarrow> bool" where
  "starts_exponent s =
     (case s of
        e # d # r \<Rightarrow>
          (e = CHR ''e'' \<or> e = CHR ''E'')
          \<and> (is_digit d
             \<or> ((d = CHR ''+'' \<or> d = CHR ''-'') \<and> (case r of d' # _ \<Rightarrow> is_digit d' | [] \<Rightarrow> False)))
      | _ \<Rightarrow> False)"

definition scan_number :: "string \<Rightarrow> (exn + json \<times> string) option" where
  "scan_number s =
     (let negative = (s \<noteq> [] \<and> hd s = CHR ''-'');
          body = (if negative then tl s else s)
      in if body = [] \<or> \<not> is_digit (hd body) then None
         else
           (let ds = (if hd body = CHR ''0'' then ''0'' else takeWhile is_digit body);
                rest = drop (length ds) body
            in if starts_fraction rest \<or> starts_exponent rest
               then Some (Inl (Unmodelled ''float''))
               else Some (Inr (JInt (if negative then - int (digits_value ds) else int (digits_value ds)),
                               rest))))"

text \<open>\<^verbatim>\<open>dict(pairs)\<close>: a repeated key keeps its first place and takes the last value.\<close>

definition dict_set :: "(string \<times> json) list \<Rightarrow> string \<times> json \<Rightarrow> (string \<times> json) list" where
  "dict_set d kv =
     (if fst kv \<in> set (map fst d)
      then map (\<lambda>old. if fst old = fst kv then kv else old) d
      else d @ [kv])"

definition dict_of_pairs :: "(string \<times> json) list \<Rightarrow> (string \<times> json) list" where
  "dict_of_pairs pairs = foldl dict_set [] pairs"

text \<open>
  The decoder, with the nesting it may still descend as first argument. \<open>parse_elements\<close>
  starts at the first element of a non-empty array and ends after its closing bracket;
  \<open>parse_members\<close> does the same for an object.
\<close>

fun parse_value :: "nat \<Rightarrow> string \<Rightarrow> exn + json \<times> string"
  and parse_elements :: "nat \<Rightarrow> string \<Rightarrow> exn + json list \<times> string"
  and parse_members :: "nat \<Rightarrow> string \<Rightarrow> exn + (string \<times> json) list \<times> string" where
  "parse_value 0 s = Inl RecursionError"
| "parse_value (Suc n) s =
     (if s = [] then Inl (JSONDecodeError ''Expecting value'')
      else if hd s = CHR 0x22 then
        exn_bind (scan_string (tl s)) (\<lambda>(str, rest). Inr (JStr str, rest))
      else if hd s = CHR ''{'' then
        (let inner = skip_ws (tl s)
         in if inner \<noteq> [] \<and> hd inner = CHR ''}'' then Inr (JObj [], tl inner)
            else exn_bind (parse_members n inner) (\<lambda>(pairs, rest). Inr (JObj (dict_of_pairs pairs), rest)))
      else if hd s = CHR ''['' then
        (let inner = skip_ws (tl s)
         in if inner \<noteq> [] \<and> hd inner = CHR '']'' then Inr (JArr [], tl inner)
            else exn_bind (parse_elements n inner) (\<lambda>(xs, rest). Inr (JArr xs, rest)))
      else if prefix ''null'' s then Inr (JNull, drop 4 s)
      else if prefix ''true'' s then Inr (JBool True, drop 4 s)
      else if prefix ''false'' s then Inr (JBool False, drop 5 s)
      else
        (case scan_number s of
           Some r \<Rightarrow> r
         | None \<Rightarrow>
             if prefix ''NaN'' s \<or> prefix ''Infinity'' s \<or> prefix ''-Infinity'' s
             then Inl (Unmodelled ''float'')
             else Inl (JSONDecodeError ''Expecting value'')))"
| "parse_elements 0 s = Inl RecursionError"
| "parse_elements (Suc n) s =
     exn_bind (parse_value n s) (\<lambda>(x, after).
       let next = skip_ws after
       in if next \<noteq> [] \<and> hd next = CHR '','' then
            exn_bind (parse_elements n (skip_ws (tl next))) (\<lambda>(xs, rest). Inr (x # xs, rest))
          else if next \<noteq> [] \<and> hd next = CHR '']'' then Inr ([x], tl next)
          else Inl (JSONDecodeError ''Expecting , delimiter''))"
| "parse_members 0 s = Inl RecursionError"
| "parse_members (Suc n) s =
     (if s \<noteq> [] \<and> hd s = CHR 0x22 then
        exn_bind (scan_string (tl s)) (\<lambda>(key, after_key).
          let colon = skip_ws after_key
          in if colon \<noteq> [] \<and> hd colon = CHR '':'' then
               exn_bind (parse_value n (skip_ws (tl colon))) (\<lambda>(x, after).
                 let next = skip_ws after
                 in if next \<noteq> [] \<and> hd next = CHR '','' then
                      exn_bind (parse_members n (skip_ws (tl next)))
                        (\<lambda>(pairs, rest). Inr ((key, x) # pairs, rest))
                    else if next \<noteq> [] \<and> hd next = CHR ''}'' then Inr ([(key, x)], tl next)
                    else Inl (JSONDecodeError ''Expecting , delimiter''))
             else Inl (JSONDecodeError ''Expecting : delimiter''))
      else Inl (JSONDecodeError ''Expecting property name enclosed in double quotes''))"

text \<open>
  \<^verbatim>\<open>json.loads\<close>: one value between optional white space, and nothing after it. The text
  is never nested deeper than it is long.
\<close>

definition json_loads :: "string \<Rightarrow> exn + json" where
  "json_loads s =
     exn_bind (parse_value (Suc (length s)) (skip_ws s)) (\<lambda>(v, rest).
       if skip_ws rest = [] then Inr v else Inl (JSONDecodeError ''Extra data''))"

text \<open>A value as \<^verbatim>\<open>json.load\<close> can produce it: no dictionary has a key twice.\<close>

fun wf_json :: "json \<Rightarrow> bool" where
  "wf_json (JArr xs) = list_all wf_json xs"
| "wf_json (JObj kvs) = (distinct (map fst kvs) \<and> list_all (\<lambda>kv. wf_json (snd kv)) kvs)"
| "wf_json _ = True"

text \<open>What may follow a value in the text \<open>dumps_at\<close> writes: nothing, a comma or a new line.\<close>

definition follows_value :: "string \<Rightarrow> bool" where
  "follows_value rest = (rest = [] \<or> hd rest = CHR '','' \<or> hd rest = CHR 0x0A)"

text \<open>The characters a printed value can start with.\<close>

definition value_start :: "char \<Rightarrow> bool" where
  "value_start c =
     (c = CHR 0x22 \<or> c = CHR ''{'' \<or> c = CHR ''['' \<or> c = CHR ''n'' \<or> c = CHR ''t''
      \<or> c = CHR ''f'' \<or> c = CHR ''-'' \<or> is_digit c)"

section \<open>Paths and the two stores\<close>

definition schema_file :: "config \<Rightarrow> string \<Rightarrow> string" where
  "schema_file cfg machine_type = path_join cfg (schema_dir cfg) (machine_type @ ''_schema.json'')"

definition result_file :: "config \<Rightarrow> string \<Rightarrow> string" where
  "result_file cfg machine_type = path_join cfg (output_dir cfg) (machine_type @ ''_test_raw.json'')"

definition prompt_file :: "config \<Rightarrow> string \<Rightarrow> string" where
  "prompt_file cfg machine_type = path_join cfg (output_dir cfg) (machine_type @ ''_fix_prompt.md'')"

text \<open>A file closed after \<open>text\<close> has been written to it.\<close>

definition store :: "filesystem \<Rightarrow> string \<Rightarrow> string \<Rightarrow> filesystem" where
  "store fs p text = fs\<lparr>node_at := (node_at fs)(p := File text)\<rparr>"

text \<open>
  The constructor only creates the output directory; whether a path can then be opened for
  writing is what \<open>write_error\<close> says. The loaders: \<^verbatim>\<open>if not p.exists(): return {}\<close>,
  where \<^verbatim>\<open>exists()\<close> itself raises for a path it cannot examine, then \<^verbatim>\<open>open\<close> and
  \<^verbatim>\<open>json.load\<close>.
\<close>

definition load_json_file :: "filesystem \<Rightarrow> string \<Rightarrow> exn + json" where
  "load_json_file fs p =
     (case node_at fs p of
        Missing \<Rightarrow> Inr (JObj [])
      | Inaccessible msg \<Rightarrow> Inl (OSError msg)
      | Unreadable msg \<Rightarrow> Inl (OSError msg)
      | File text \<Rightarrow> json_loads text)"

definition load_test_results :: "config \<Rightarrow> filesystem \<Rightarrow> string \<Rightarrow> exn + json" where
  "load_test_results cfg fs machine_type = load_json_file fs (result_file cfg machine_type)"

definition load_schema :: "config \<Rightarrow> filesystem \<Rightarrow> string \<Rightarrow> exn + json" where
  "load_schema cfg fs machine_type = load_json_file fs (schema_file cfg machine_type)"

text \<open>
  \<^verbatim>\<open>save_schema\<close> catches every exception and returns \<^verbatim>\<open>False\<close>: when the file cannot be
  opened nothing changes; when \<^verbatim>\<open>json.dump\<close> raises, the file has been opened and holds
  what was written before. The model returns the file system after the call and the
  boolean.
\<close>

definition save_schema :: "config \<Rightarrow> filesystem \<Rightarrow> string \<Rightarrow> pyval \<Rightarrow> filesystem \<times> bool" where
  "save_schema cfg fs machine_type schema =
     (let p = schema_file cfg machine_type in
      case write_error fs p of
        Some msg \<Rightarrow> (fs, False)
      | None \<Rightarrow>
          (case py_dump 0 schema of
             (text, None) \<Rightarrow> (store fs p text, True)
           | (text, Some e) \<Rightarrow> (store fs p text, False)))"

section \<open>The remote client\<close>

text \<open>
  \<^verbatim>\<open>response.raise_for_status()\<close> of the \<^verbatim>\<open>requests\<close> library: it raises an
  \<^verbatim>\<open>HTTPError\<close> for a status from 400 to 599 and for no other; the result is the text of
  the exception, if any.
\<close>

definition raise_for_status :: "response \<Rightarrow> string option" where
  "raise_for_status r =
     (if 400 \<le> status_code r \<and> status_code r < 500 then
        Some (decimal (status_code r) @ '' Client Error: '' @ reason r @ '' for url: '' @ url r)
      else if 500 \<le> status_code r \<and> status_code r < 600 then
        Some (decimal (status_code r) @ '' Server Error: '' @ reason r @ '' for url: '' @ url r)
      else None)"

text \<open>
  The three calls at the head of both \<^verbatim>\<open>try\<close> blocks, \<^verbatim>\<open>requests.post\<close>,
  \<^verbatim>\<open>raise_for_status\<close> and \<^verbatim>\<open>response.json()\<close>: the text of the exception one of them
  raises, or the parsed body.
\<close>

definition post_command :: "http_result \<Rightarrow> string + json" where
  "post_command reply =
     (case reply of
        NetworkError msg \<Rightarrow> Inl msg
      | TimedOut msg \<Rightarrow> Inl msg
      | Response r \<Rightarrow>
          (case raise_for_status r of
             Some msg \<Rightarrow> Inl msg
           | None \<Rightarrow> json_body r))"

definition failure :: "string \<Rightarrow> json" where
  "failure msg = JObj [(''success'', JBool False), (''error'', JStr msg)]"

text \<open>
  \<^verbatim>\<open>test_schema\<close>: the request, the status check, the parse and the write of the raw
  result are inside one \<^verbatim>\<open>try\<close>; any exception becomes the failure object.
\<close>

definition test_schema :: "config \<Rightarrow> http_result \<Rightarrow> filesystem \<Rightarrow> string \<Rightarrow> filesystem \<times> json" where
  "test_schema cfg reply fs machine_type =
     (case post_command reply of
        Inl msg \<Rightarrow> (fs, failure msg)
      | Inr result \<Rightarrow>
          (let p = result_file cfg machine_type in
           case write_error fs p of
             Some msg \<Rightarrow> (fs, failure msg)
           | None \<Rightarrow> (store fs p (json_dumps result), result)))"

text \<open>
  \<^verbatim>\<open>reload_schema\<close> returns \<^verbatim>\<open>result.get("success", False)\<close>, or \<^verbatim>\<open>False\<close> on any
  exception, the \<^verbatim>\<open>AttributeError\<close> of a body that is no dictionary included.
\<close>

definition reload_schema :: "http_result \<Rightarrow> json" where
  "reload_schema reply =
     (case post_command reply of
        Inl msg \<Rightarrow> JBool False
      | Inr result \<Rightarrow>
          (case py_get result ''success'' (JBool False) of
             Inl e \<Rightarrow> JBool False
           | Inr v \<Rightarrow> v))"

section \<open>The suggestion generator\<close>

text \<open>
  One pass of the loop body over a string \<open>error\<close>: the \<^verbatim>\<open>if\<close>/\<^verbatim>\<open>elif\<close> chain, each
  branch appending to \<^verbatim>\<open>suggestions["fixes_needed"]\<close> or leaving it alone.
\<close>

definition analyze_error :: "config \<Rightarrow> string \<Rightarrow> json list \<Rightarrow> string \<Rightarrow> json list" where
  "analyze_error cfg machine_type fixes_needed error =
     (let error_lower = lower error in
      if contains ''not found'' error_lower \<or> contains ''file not found'' error_lower then
        fixes_needed @ [JObj
          [(''issue'', JStr ''Schema file missing''),
           (''action'', JStr (''Create '' @ machine_type @ ''_schema.json in '' @ schema_dir cfg)),
           (''priority'', JStr ''high'')]]
      else if contains ''validation failed'' error_lower \<or> contains ''missing'' error_lower then
        (if contains ''header'' error_lower then
           fixes_needed @ [JObj
             [(''issue'', JStr ''Missing group header''),
              (''action'', JStr ''Add 'header' field to all groups in schema''),
              (''priority'', JStr ''high''),
              (''schema_section'', JStr ''groups'')]]
         else if contains ''process'' error_lower \<and> contains ''label'' error_lower then
           fixes_needed @ [JObj
             [(''issue'', JStr ''Missing process label''),
              (''action'', JStr ''Add 'label.text' field to process in schema''),
              (''priority'', JStr ''high''),
              (''schema_section'', JStr ''process'')]]
         else fixes_needed)
      else if contains ''invalid'' error_lower \<or> contains ''flow'' error_lower then
        fixes_needed @ [JObj
          [(''issue'', JStr ''Invalid flow position''),
           (''action'', JStr ''Check group anchor positions relative to process anchor''),
           (''priority'', JStr ''medium''),
           (''schema_section'', JStr ''groups'')]]
      else fixes_needed)"

text \<open>
  The loop \<^verbatim>\<open>for error in errors\<close>: \<^verbatim>\<open>error.lower()\<close> raises on an element that is not
  a string.
\<close>

fun analyze_errors :: "config \<Rightarrow> string \<Rightarrow> json list \<Rightarrow> json list \<Rightarrow> exn + json list" where
  "analyze_errors cfg machine_type fixes_needed [] = Inr fixes_needed"
| "analyze_errors cfg machine_type fixes_needed (JStr error # errors) =
     analyze_errors cfg machine_type (analyze_error cfg machine_type fixes_needed error) errors"
| "analyze_errors cfg machine_type fixes_needed (_ # errors) = Inl (AttributeError ''lower'')"

text \<open>The summary of a non-empty schema.\<close>

definition schema_snippet :: "json \<Rightarrow> exn + json" where
  "schema_snippet schema =
     exn_bind (py_get schema ''machineKind'' JNull) (\<lambda>machineKind.
     exn_bind (py_get schema ''version'' JNull) (\<lambda>version.
     exn_bind (py_get schema ''groups'' (JArr [])) (\<lambda>groups.
     exn_bind (py_len groups) (\<lambda>groups_count.
     exn_bind (py_in ''process'' schema) (\<lambda>has_process.
     exn_bind (py_in ''recipes'' schema) (\<lambda>has_recipes.
       Inr (JObj
         [(''machineKind'', machineKind),
          (''version'', version),
          (''groups_count'', JInt groups_count),
          (''has_process'', JBool has_process),
          (''has_recipes'', JBool has_recipes)])))))))"

definition no_test_results :: json where
  "no_test_results = JObj [(''error'', JStr ''No test results found'')]"

definition get_fix_suggestions :: "config \<Rightarrow> filesystem \<Rightarrow> string \<Rightarrow> exn + json" where
  "get_fix_suggestions cfg fs machine_type =
     exn_bind (load_test_results cfg fs machine_type) (\<lambda>test_result.
     exn_bind (load_schema cfg fs machine_type) (\<lambda>schema.
       if \<not> truthy test_result then Inr no_test_results
       else
         exn_bind (py_get test_result ''errors'' (JArr [])) (\<lambda>errors.
         exn_bind (py_get test_result ''warnings'' (JArr [])) (\<lambda>warnings.
         exn_bind (py_iter errors) (\<lambda>error_items.
         exn_bind (analyze_errors cfg machine_type [] error_items) (\<lambda>fixes_needed.
         exn_bind (if truthy schema then schema_snippet schema else Inr (JObj [])) (\<lambda>snippet.
           Inr (JObj
             [(''machine_type'', JStr machine_type),
              (''schema_file'', JStr (schema_file cfg machine_type)),
              (''errors'', errors),
              (''warnings'', warnings),
              (''fixes_needed'', JArr fixes_needed),
              (''schema_snippet'', snippet)]))))))))"

section \<open>The prompt formatter\<close>

text \<open>
  The block added for \<^verbatim>\<open>suggestions.get(field)\<close> when it is true: the heading, one
  bullet per element of \<^verbatim>\<open>suggestions[field]\<close>, and an empty line.
\<close>

definition bullet_section :: "json \<Rightarrow> string \<Rightarrow> string \<Rightarrow> exn + string" where
  "bullet_section suggestions field heading =
     exn_bind (py_get suggestions field JNull) (\<lambda>present.
       if truthy present then
         exn_bind (py_getitem suggestions field) (\<lambda>listed.
         exn_bind (py_iter listed) (\<lambda>items.
           Inr (heading @ ''\<newline>''
                @ concat (map (\<lambda>item. ''- '' @ py_str item @ ''\<newline>'') items)
                @ ''\<newline>'')))
       else Inr [])"

text \<open>The two lines of one fix; each subscript can raise.\<close>

definition fix_lines :: "json \<Rightarrow> exn + string" where
  "fix_lines fix =
     exn_bind (py_getitem fix ''issue'') (\<lambda>issue.
     exn_bind (py_getitem fix ''priority'') (\<lambda>priority.
     exn_bind (py_getitem fix ''action'') (\<lambda>action.
       Inr (''- **'' @ py_str issue @ ''** (Priority: '' @ py_str priority @ '')\<newline>''
            @ ''  - Action: '' @ py_str action @ ''\<newline>''))))"

fun fixes_lines :: "json list \<Rightarrow> exn + string" where
  "fixes_lines [] = Inr []"
| "fixes_lines (fix # fixes) =
     exn_bind (fix_lines fix) (\<lambda>first. exn_bind (fixes_lines fixes) (\<lambda>rest. Inr (first @ rest)))"

definition fixes_section :: "json \<Rightarrow> exn + string" where
  "fixes_section suggestions =
     exn_bind (py_get suggestions ''fixes_needed'' JNull) (\<lambda>present.
       if truthy present then
         exn_bind (py_getitem suggestions ''fixes_needed'') (\<lambda>listed.
         exn_bind (py_iter listed) (\<lambda>fixes.
         exn_bind (fixes_lines fixes) (\<lambda>lines.
           Inr (''### Fixes Needed:\<newline>'' @ lines @ ''\<newline>''))))
       else Inr [])"

definition prompt_head :: "string \<Rightarrow> string" where
  "prompt_head machine_type =
     ''# Fix MachineUI Schema: '' @ machine_type @ ''\<newline>\<newline>## Current Issues\<newline>\<newline>''"

definition prompt_tail :: "string \<Rightarrow> string \<Rightarrow> string" where
  "prompt_tail location dump =
     ''## Schema File Location\<newline>'' @ location
     @ ''\<newline>\<newline>## Current Schema Structure\<newline>```json\<newline>''
     @ take 1000 dump
     @ ''...\<newline>```\<newline>\<newline>## Task\<newline>''
     @ ''Please fix the schema file to resolve the errors and warnings listed above.\<newline>''
     @ ''The schema file is located at: '' @ location
     @ ''\<newline>\<newline>After fixing, the schema will be automatically tested and reloaded in the app.\<newline>''"

definition generate_llm_prompt :: "config \<Rightarrow> filesystem \<Rightarrow> string \<Rightarrow> exn + string" where
  "generate_llm_prompt cfg fs machine_type =
     exn_bind (get_fix_suggestions cfg fs machine_type) (\<lambda>suggestions.
     exn_bind (load_schema cfg fs machine_type) (\<lambda>schema.
     exn_bind (bullet_section suggestions ''errors'' ''### Errors:'') (\<lambda>errors_part.
     exn_bind (bullet_section suggestions ''warnings'' ''### Warnings:'') (\<lambda>warnings_part.
     exn_bind (fixes_section suggestions) (\<lambda>fixes_part.
     exn_bind (py_getitem suggestions ''schema_file'') (\<lambda>location.
       Inr (prompt_head machine_type @ errors_part @ warnings_part @ fixes_part
            @ prompt_tail (py_str location) (json_dumps schema))))))))"

section \<open>The workflows\<close>

text \<open>
  \<^verbatim>\<open>open(p, 'w')\<close> and \<^verbatim>\<open>f.write(text)\<close> outside any \<^verbatim>\<open>try\<close>.
\<close>

definition write_text :: "filesystem \<Rightarrow> string \<Rightarrow> string \<Rightarrow> exn + filesystem" where
  "write_text fs p text =
     (case write_error fs p of
        Some msg \<Rightarrow> Inl (OSError msg)
      | None \<Rightarrow> Inr (store fs p text))"

text \<open>
  Both workflows return the file system they leave behind, and either the exception that
  ended them or the dictionary they return. Console output is not modelled: no value and
  no file depends on it.
\<close>

definition run_fix_workflow ::
  "config \<Rightarrow> http_result \<Rightarrow> filesystem \<Rightarrow> string \<Rightarrow> filesystem \<times> (exn + json)" where
  "run_fix_workflow cfg reply fs machine_type =
     (case test_schema cfg reply fs machine_type of (fs1, test_result) \<Rightarrow>
        (case py_get test_result ''success'' JNull of
           Inl e \<Rightarrow> (fs1, Inl e)
         | Inr ok \<Rightarrow>
             if truthy ok then
               (fs1, Inr (JObj [(''success'', JBool True), (''message'', JStr ''No fixes needed'')]))
             else
               (case get_fix_suggestions cfg fs1 machine_type of
                  Inl e \<Rightarrow> (fs1, Inl e)
                | Inr suggestions \<Rightarrow>
                    (case generate_llm_prompt cfg fs1 machine_type of
                       Inl e \<Rightarrow> (fs1, Inl e)
                     | Inr prompt \<Rightarrow>
                         (case write_text fs1 (prompt_file cfg machine_type) prompt of
                            Inl e \<Rightarrow> (fs1, Inl e)
                          | Inr fs2 \<Rightarrow>
                              (case py_getitem suggestions ''schema_file'' of
                                 Inl e \<Rightarrow> (fs2, Inl e)
                               | Inr location \<Rightarrow>
                                   (fs2, Inr (JObj
                                      [(''success'', JBool False),
                                       (''fixes_needed'', JBool True),
                                       (''prompt_file'', JStr (prompt_file cfg machine_type)),
                                       (''schema_file'', location),
                                       (''suggestions'', suggestions)]))))))))"

text \<open>
  \<^verbatim>\<open>verify_fix\<close>: the reload reply is asked for only after a successful test; in the
  other branch the loop that prints the errors needs an iterable.
\<close>

definition verify_fix ::
  "config \<Rightarrow> http_result \<Rightarrow> http_result \<Rightarrow> filesystem \<Rightarrow> string \<Rightarrow> filesystem \<times> (exn + json)" where
  "verify_fix cfg test_reply reload_reply fs machine_type =
     (case test_schema cfg test_reply fs machine_type of (fs1, test_result) \<Rightarrow>
        (case py_get test_result ''success'' JNull of
           Inl e \<Rightarrow> (fs1, Inl e)
         | Inr ok \<Rightarrow>
             if truthy ok then
               (let reloaded = truthy (reload_schema reload_reply) in
                (fs1, Inr (JObj [(''success'', JBool True), (''test_result'', test_result)])))
             else
               (case exn_bind (py_get test_result ''errors'' (JArr [])) py_iter of
                  Inl e \<Rightarrow> (fs1, Inl e)
                | Inr printed \<Rightarrow>
                    (fs1, Inr (JObj [(''success'', JBool False), (''test_result'', test_result)])))))"

section \<open>A concrete environment\<close>

text \<open>
  \<^verbatim>\<open>str(PurePosixPath(d) / name)\<close>: empty components and \<^verbatim>\<open>.\<close> are dropped, a leading
  slash is the root (two slashes, and no more, are kept as they are), and an absolute
  \<open>name\<close> replaces \<open>d\<close>.
\<close>

fun split_on :: "char \<Rightarrow> string \<Rightarrow> string list" where
  "split_on c [] = [[]]"
| "split_on c (x # xs) =
     (if x = c then [] # split_on c xs
      else (case split_on c xs of
              [] \<Rightarrow> [[x]]
            | part # parts \<Rightarrow> (x # part) # parts))"

definition path_parts :: "string \<Rightarrow> string list" where
  "path_parts p = filter (\<lambda>part. part \<noteq> [] \<and> part \<noteq> ''.'') (split_on CHR ''/'' p)"

definition path_root :: "string \<Rightarrow> string" where
  "path_root p =
     (if take 2 p = ''//'' \<and> take 3 p \<noteq> ''///'' then ''//''
      else if take 1 p = ''/'' then ''/''
      else [])"

definition path_text :: "string \<Rightarrow> string list \<Rightarrow> string" where
  "path_text root parts = (if root = [] \<and> parts = [] then ''.'' else root @ join_with ''/'' parts)"

definition posix_join :: "string \<Rightarrow> string \<Rightarrow> string" where
  "posix_join d name =
     (if path_root name \<noteq> [] then path_text (path_root name) (path_parts name)
      else path_text (path_root d) (path_parts d @ path_parts name))"

text \<open>The configuration with no environment variable set.\<close>

definition default_config :: config where
  "default_config =
     \<lparr>schema_dir = ''FactoryForge/Assets'',
      output_dir = ''.machine-ui-test-results'',
      path_join = posix_join\<rparr>"

text \<open>
  Three file systems without files: every path writable; no path writable; and one that
  refuses names of more than 255 characters, as Linux file systems do.
\<close>

definition empty_fs :: filesystem where
  "empty_fs = \<lparr>node_at = (\<lambda>p. Missing), write_error = (\<lambda>p. None)\<rparr>"


definition file_name :: "string \<Rightarrow> string" where
  "file_name p = last (split_on CHR ''/'' p)"

definition name_limit_fs :: filesystem where
  "name_limit_fs =
     \<lparr>node_at = (\<lambda>p. if 255 < length (file_name p) then Inaccessible ''File name too long''
                       else Missing),
      write_error = (\<lambda>p. if 255 < length (file_name p) then Some ''File name too long''
                           else None)\<rparr>"

text \<open>
  A reply of the service with status 200 and a JSON body; a test result with the given
  error strings and no warnings, as the service reports it; and the file system after
  \<open>test_schema\<close> has received a result for a key and stored it; \<open>after_test\<close> is that for
  the key \<^verbatim>\<open>furnace\<close>.
\<close>

definition ok_reply :: "json \<Rightarrow> http_result" where
  "ok_reply result =
     Response \<lparr>status_code = 200, reason = ''OK'', url = ''http://localhost:8080/command'',
               json_body = Inr result\<rparr>"

definition failed_result :: "string list \<Rightarrow> json" where
  "failed_result errors =
     JObj [(''success'', JBool False), (''errors'', JArr (map JStr errors)), (''warnings'', JArr [])]"

definition tested_key :: "string \<Rightarrow> json \<Rightarrow> filesystem" where
  "tested_key machine_type result =
     fst (test_schema default_config (ok_reply result) empty_fs machine_type)"

definition after_test :: "json \<Rightarrow> filesystem" where
  "after_test result = tested_key ''furnace'' result"

text \<open>The schema file of \<^verbatim>\<open>furnace\<close> overwritten with text that is not JSON.\<close>

definition corrupt_schema :: "filesystem \<Rightarrow> filesystem" where
  "corrupt_schema fs = store fs (schema_file default_config ''furnace'') ''{machineKind: furnace''"

text \<open>A line of a text: one of the pieces between its new-line characters.\<close>

definition has_line :: "string \<Rightarrow> string \<Rightarrow> bool" where
  "has_line line text = (line \<in> set (split_on CHR 0x0A text))"

section \<open>The decoder reads what the encoder writes\<close>

subsection \<open>Characters\<close>

lemma hex_value_digits:
  "list_all (\<lambda>d. hex_value (''0123456789abcdef'' ! d) = Some d) [0..<16]"
  by code_simp

lemma hex_value_digit:
  assumes "d < 16"
  shows "hex_value (''0123456789abcdef'' ! d) = Some d"
  using hex_value_digits assms by (simp add: list_all_iff)

lemma digit_value_digits:
  "list_all (\<lambda>d. digit_value (''0123456789'' ! d) = Some d) [0..<10]"
  by code_simp

lemma digit_value_digit:
  assumes "d < 10"
  shows "digit_value (''0123456789'' ! d) = Some d"
  using digit_value_digits assms by (simp add: list_all_iff)

lemma hex_code_hex2:
  "hex_code CHR ''0'' CHR ''0'' (hex2 c ! 0) (hex2 c ! 1) = Some (of_char c)"
proof -
  let ?n = "of_char c :: nat"
  have small: "?n < 256"
    by (rule nat_of_char_less_256)
  have hi: "?n div 16 < 16"
    by (rule less_mult_imp_div_less) (use small in simp)
  have lo: "?n mod 16 < 16"
    by simp
  have zero: "hex_value CHR ''0'' = Some 0"
    by (simp add: hex_value_def)
  have "16 * (?n div 16) + ?n mod 16 = ?n"
    by simp
  then show ?thesis
    by (simp add: hex_code_def hex2_def Let_def zero hex_value_digit [OF hi]
        hex_value_digit [OF lo] ac_simps)
qed

lemma scan_string_escape:
  "scan_string (json_escape c @ t) = push c (scan_string t)"
proof -
  have u: "scan_string (CHR 0x5C # CHR ''u'' # CHR ''0'' # CHR ''0'' # hex2 c @ t)
             = push c (scan_string t)"
  proof -
    obtain h1 h2 where h: "hex2 c = [h1, h2]"
      by (simp add: hex2_def Let_def)
    with hex_code_hex2 [of c] have "hex_code CHR ''0'' CHR ''0'' h1 h2 = Some (of_char c)"
      by simp
    with h show ?thesis
      by simp
  qed
  show ?thesis
    unfolding json_escape_def
    using u by (simp add: unescape_def)
qed

lemma scan_string_roundtrip:
  "scan_string (concat (map json_escape s) @ CHR 0x22 # rest) = Inr (s, rest)"
  by (induction s) (simp_all add: scan_string_escape push_def)

subsection \<open>Numbers\<close>

lemma is_digit_nth: "d < 10 \<Longrightarrow> is_digit (''0123456789'' ! d)"
  by (simp add: is_digit_def digit_value_digit)

lemma decimal_digits: "list_all is_digit (decimal n)"
proof (induction n rule: decimal.induct)
  case (1 n)
  show ?case
  proof (cases "n < 10")
    case True
    then show ?thesis by (simp add: decimal.simps [of n] is_digit_nth)
  next
    case False
    with "1.IH" show ?thesis by (simp add: decimal.simps [of n] is_digit_nth)
  qed
qed

lemma decimal_nonempty: "decimal n \<noteq> []"
  by (simp add: decimal.simps [of n])

lemma digits_value_snoc:
  "digits_value (ds @ [d]) = 10 * digits_value ds + the (digit_value d)"
  by (simp add: digits_value_def)

lemma digits_value_decimal: "digits_value (decimal n) = n"
proof (induction n rule: decimal.induct)
  case (1 n)
  show ?case
  proof (cases "n < 10")
    case True
    then show ?thesis
      by (simp add: decimal.simps [of n] digits_value_def digit_value_digit)
  next
    case False
    with "1.IH" show ?thesis
      by (simp add: decimal.simps [of n] digits_value_snoc digit_value_digit)
  qed
qed

lemma decimal_hd: "0 < n \<Longrightarrow> hd (decimal n) \<noteq> CHR ''0''"
proof (induction n rule: decimal.induct)
  case (1 n)
  show ?case
  proof (cases "n < 10")
    case True
    have "digit_value (''0123456789'' ! n) = Some n"
      using True by (rule digit_value_digit)
    moreover have "digit_value CHR ''0'' = Some 0"
      by (simp add: digit_value_def)
    ultimately have "''0123456789'' ! n \<noteq> CHR ''0''"
      using "1.prems" by auto
    with True show ?thesis by (simp add: decimal.simps [of n])
  next
    case False
    then have "0 < n div 10" by simp
    with "1.IH" False have "hd (decimal (n div 10)) \<noteq> CHR ''0''" by simp
    with False show ?thesis
      by (simp add: decimal.simps [of n] hd_append decimal_nonempty)
  qed
qed

lemma decimal_zero: "decimal 0 = ''0''"
  by (simp add: decimal.simps [of 0])

lemma is_digit_hd_decimal: "is_digit (hd (decimal n))"
  using decimal_digits [of n] decimal_nonempty [of n]
  by (cases "decimal n") simp_all

lemma not_digit_facts:
  "\<not> is_digit CHR '',''" "\<not> is_digit CHR 0x0A" "\<not> is_digit CHR ''-''"
  "\<not> is_digit CHR 0x22" "\<not> is_digit CHR ''{''" "\<not> is_digit CHR ''[''"
  "\<not> is_digit CHR ''n''" "\<not> is_digit CHR ''t''" "\<not> is_digit CHR ''f''"
  "\<not> is_digit CHR '' ''" "\<not> is_digit CHR '']''" "\<not> is_digit CHR ''}''"
  by (simp_all add: is_digit_def digit_value_def)

lemma takeWhile_decimal:
  assumes "follows_value rest"
  shows "takeWhile is_digit (decimal n @ rest) = decimal n"
proof -
  have "takeWhile is_digit rest = []"
    using assms by (cases rest) (auto simp: follows_value_def not_digit_facts)
  moreover have "\<forall>c\<in>set (decimal n). is_digit c"
    using decimal_digits [of n] by (simp add: list_all_iff)
  ultimately show ?thesis
    by (simp add: takeWhile_append2)
qed

lemma not_number_tail:
  assumes "follows_value rest"
  shows "\<not> starts_fraction rest" "\<not> starts_exponent rest"
  using assms
  by (auto simp: follows_value_def starts_fraction_def starts_exponent_def
      split: list.splits)

lemma scan_number_decimal:
  assumes "follows_value rest"
  shows "scan_number (decimal n @ rest) = Some (Inr (JInt (int n), rest))"
proof -
  let ?body = "decimal n @ rest"
  have first: "hd ?body = hd (decimal n)" "?body \<noteq> []"
    by (simp_all add: hd_append decimal_nonempty)
  have digit: "is_digit (hd ?body)"
    using first is_digit_hd_decimal by simp
  then have positive: "hd ?body \<noteq> CHR ''-''"
    using not_digit_facts by auto
  show ?thesis
  proof (cases "n = 0")
    case True
    with assms show ?thesis
      by (simp add: scan_number_def decimal_zero not_digit_facts not_number_tail
          digits_value_def digit_value_def is_digit_def)
  next
    case False
    then have "hd ?body \<noteq> CHR ''0''"
      using first decimal_hd [of n] by simp
    with assms first digit positive show ?thesis
      by (simp add: scan_number_def Let_def takeWhile_decimal not_number_tail
          digits_value_decimal)
  qed
qed

lemma scan_number_negative:
  assumes "follows_value rest" and "0 < n"
  shows "scan_number (CHR ''-'' # decimal n @ rest) = Some (Inr (JInt (- int n), rest))"
proof -
  let ?body = "decimal n @ rest"
  have first: "hd ?body = hd (decimal n)" "?body \<noteq> []"
    by (simp_all add: hd_append decimal_nonempty)
  have digit: "is_digit (hd ?body)"
    using first is_digit_hd_decimal by simp
  have "hd ?body \<noteq> CHR ''0''"
    using first decimal_hd [OF assms(2)] by simp
  with assms first digit show ?thesis
    by (simp add: scan_number_def Let_def takeWhile_decimal not_number_tail
        digits_value_decimal)
qed

lemma scan_number_int_text:
  assumes "follows_value rest"
  shows "scan_number (int_text i @ rest) = Some (Inr (JInt i, rest))"
proof (cases "i < 0")
  case True
  then have "0 < nat (- i)" by simp
  from scan_number_negative [OF assms this] True show ?thesis
    by (simp add: int_text_def)
next
  case False
  with scan_number_decimal [OF assms, of "nat i"] show ?thesis
    by (simp add: int_text_def)
qed

subsection \<open>White space and first characters\<close>

lemma skip_ws_newline_indent: "skip_ws (newline_indent level @ s) = skip_ws s"
proof -
  have "\<forall>c\<in>set (newline_indent level). is_ws c"
    by (auto simp: newline_indent_def is_ws_def)
  then show ?thesis
    by (simp add: skip_ws_def dropWhile_append2)
qed

lemma skip_ws_Cons: "\<not> is_ws c \<Longrightarrow> skip_ws (c # s) = c # s"
  by (simp add: skip_ws_def)

lemma skip_ws_space: "skip_ws (CHR '' '' # s) = skip_ws s"
  by (simp add: skip_ws_def is_ws_def)

lemma skip_ws_Nil: "skip_ws [] = []"
  by (simp add: skip_ws_def)

lemma value_start_facts:
  assumes "value_start c"
  shows "\<not> is_ws c" "c \<noteq> CHR '']''" "c \<noteq> CHR ''}''" "c \<noteq> CHR '',''"
  using assms
  by (auto simp: value_start_def is_ws_def is_digit_def digit_value_def)

lemma int_text_start: "\<exists>c t. int_text i = c # t \<and> value_start c"
proof (cases "i < 0")
  case True
  then show ?thesis by (simp add: int_text_def value_start_def)
next
  case False
  obtain c t where "decimal (nat i) = c # t"
    using decimal_nonempty [of "nat i"] by (cases "decimal (nat i)") auto
  moreover from this have "is_digit c"
    using is_digit_hd_decimal [of "nat i"] by simp
  ultimately show ?thesis
    using False by (simp add: int_text_def value_start_def)
qed

lemma dumps_at_start: "\<exists>c t. dumps_at level v = c # t \<and> value_start c"
proof (cases v)
  case (JInt i)
  then show ?thesis using int_text_start [of i] by simp
qed (simp_all add: value_start_def json_string_def)

lemma skip_ws_dumps_at: "skip_ws (dumps_at level v @ s) = dumps_at level v @ s"
proof -
  obtain c t where "dumps_at level v = c # t" "value_start c"
    using dumps_at_start by blast
  then show ?thesis
    by (simp add: skip_ws_Cons value_start_facts)
qed

lemma hd_dumps_at: "value_start (hd (dumps_at level v @ s))" "dumps_at level v @ s \<noteq> []"
proof -
  obtain c t where "dumps_at level v = c # t" "value_start c"
    using dumps_at_start by blast
  then show "value_start (hd (dumps_at level v @ s))" "dumps_at level v @ s \<noteq> []"
    by simp_all
qed

lemma length_dumps_at: "0 < length (dumps_at level v)"
  using dumps_at_start [of level v] by auto

subsection \<open>Values without parts\<close>

lemma parse_value_null: "parse_value (Suc n) (''null'' @ rest) = Inr (JNull, rest)"
  by simp

lemma parse_value_bool:
  "parse_value (Suc n) ((if b then ''true'' else ''false'') @ rest) = Inr (JBool b, rest)"
  by simp

lemma parse_value_string:
  "parse_value (Suc n) (json_string s @ rest) = Inr (JStr s, rest)"
  by (simp add: json_string_def scan_string_roundtrip exn_bind_def)

lemma parse_value_int:
  assumes "follows_value rest"
  shows "parse_value (Suc n) (int_text i @ rest) = Inr (JInt i, rest)"
proof -
  obtain c t where start: "int_text i = c # t" "c = CHR ''-'' \<or> is_digit c"
  proof (cases "i < 0")
    case True
    then show ?thesis using that by (simp add: int_text_def)
  next
    case False
    obtain c t where "decimal (nat i) = c # t"
      using decimal_nonempty [of "nat i"] by (cases "decimal (nat i)") auto
    moreover from this have "is_digit c"
      using is_digit_hd_decimal [of "nat i"] by simp
    ultimately show ?thesis using that False by (simp add: int_text_def)
  qed
  then have other: "c \<noteq> CHR 0x22" "c \<noteq> CHR ''{''" "c \<noteq> CHR ''[''"
    "c \<noteq> CHR ''n''" "c \<noteq> CHR ''t''" "c \<noteq> CHR ''f''"
    using not_digit_facts by auto
  have number: "scan_number (c # t @ rest) = Some (Inr (JInt i, rest))"
    using scan_number_int_text [OF assms, of i] start by simp
  show ?thesis
    using other number by (simp add: start)
qed

subsection \<open>Arrays and objects\<close>

lemma join_with_start:
  "skip_ws (join_with sep (dumps_at level x # texts) @ s)
     = join_with sep (dumps_at level x # texts) @ s"
  by (cases texts) (simp_all add: skip_ws_dumps_at)

lemma follows_value_facts:
  "follows_value (newline_indent level @ s)" "follows_value (CHR '','' # s)" "follows_value []"
  by (simp_all add: follows_value_def newline_indent_def)

lemma parse_elements_roundtrip:
  assumes "\<And>x level n rest. x \<in> set xs \<Longrightarrow> follows_value rest \<Longrightarrow>
             length (dumps_at level x) \<le> n \<Longrightarrow>
             parse_value n (dumps_at level x @ rest) = Inr (x, rest)"
    and "xs \<noteq> []"
    and "length (join_with (CHR '','' # newline_indent inner) (map (dumps_at inner) xs)) < n"
  shows "parse_elements n
           (join_with (CHR '','' # newline_indent inner) (map (dumps_at inner) xs)
            @ newline_indent outer @ CHR '']'' # rest)
         = Inr (xs, rest)"
  using assms
proof (induction xs arbitrary: n)
  case Nil
  then show ?case by simp
next
  case (Cons x xs)
  let ?sep = "CHR '','' # newline_indent inner"
  let ?tail = "newline_indent outer @ CHR '']'' # rest"
  from Cons.prems(3) obtain m where n: "n = Suc m"
    by (cases n) auto
  have closing: "skip_ws ?tail = CHR '']'' # rest"
    by (simp add: skip_ws_newline_indent skip_ws_Cons is_ws_def)
  show ?case
  proof (cases xs)
    case Nil
    from Cons.prems(3) n Nil have fuel: "length (dumps_at inner x) \<le> m"
      by simp
    have "parse_value m (dumps_at inner x @ ?tail) = Inr (x, ?tail)"
      by (rule Cons.prems(1)) (simp_all add: follows_value_facts fuel)
    then show ?thesis
      using Nil n closing by (simp add: exn_bind_def)
  next
    case (Cons y ys)
    let ?more = "join_with ?sep (map (dumps_at inner) (y # ys))"
    from Cons.prems(3) n Cons have fuel: "length (dumps_at inner x) \<le> m"
      and less: "length ?more < m"
      by simp_all
    have first: "parse_value m (dumps_at inner x @ CHR '','' # newline_indent inner @ ?more @ ?tail)
                   = Inr (x, CHR '','' # newline_indent inner @ ?more @ ?tail)"
      by (rule Cons.prems(1)) (simp_all add: follows_value_facts fuel)
    have "parse_elements m (?more @ ?tail) = Inr (y # ys, rest)"
      using Cons.IH [of m] Cons.prems(1) less Cons by simp
    then have rest: "parse_elements m (skip_ws (newline_indent inner @ ?more @ ?tail))
                   = Inr (xs, rest)"
      using Cons by (simp add: skip_ws_newline_indent join_with_start)
    show ?thesis
      using Cons n first rest
      by (simp add: exn_bind_def skip_ws_Cons is_ws_def)
  qed
qed

lemma member_start:
  "skip_ws (join_with sep ((json_string k @ t) # texts) @ s)
     = join_with sep ((json_string k @ t) # texts) @ s"
  by (cases texts) (simp_all add: json_string_def skip_ws_Cons is_ws_def)

lemma parse_members_roundtrip:
  assumes "\<And>kv level n rest. kv \<in> set kvs \<Longrightarrow> follows_value rest \<Longrightarrow>
             length (dumps_at level (snd kv)) \<le> n \<Longrightarrow>
             parse_value n (dumps_at level (snd kv) @ rest) = Inr (snd kv, rest)"
    and "kvs \<noteq> []"
    and "length (join_with (CHR '','' # newline_indent inner)
           (map (\<lambda>kv. json_string (fst kv) @ '': '' @ dumps_at inner (snd kv)) kvs)) < n"
  shows "parse_members n
           (join_with (CHR '','' # newline_indent inner)
              (map (\<lambda>kv. json_string (fst kv) @ '': '' @ dumps_at inner (snd kv)) kvs)
            @ newline_indent outer @ CHR ''}'' # rest)
         = Inr (kvs, rest)"
  using assms
proof (induction kvs arbitrary: n)
  case Nil
  then show ?case by simp
next
  case (Cons kv kvs)
  let ?sep = "CHR '','' # newline_indent inner"
  let ?item = "\<lambda>kv. json_string (fst kv) @ '': '' @ dumps_at inner (snd kv)"
  let ?tail = "newline_indent outer @ CHR ''}'' # rest"
  from Cons.prems(3) obtain m where n: "n = Suc m"
    by (cases n) auto
  have closing: "skip_ws ?tail = CHR ''}'' # rest"
    by (simp add: skip_ws_newline_indent skip_ws_Cons is_ws_def)
  have key: "scan_string (tl (json_string (fst kv) @ t)) = Inr (fst kv, t)" for t
    by (simp add: json_string_def scan_string_roundtrip)
  have quote: "json_string (fst kv) @ t \<noteq> []" "hd (json_string (fst kv) @ t) = CHR 0x22" for t
    by (simp_all add: json_string_def)
  show ?case
  proof (cases kvs)
    case Nil
    from Cons.prems(3) n Nil have fuel: "length (dumps_at inner (snd kv)) \<le> m"
      by simp
    have "parse_value m (dumps_at inner (snd kv) @ ?tail) = Inr (snd kv, ?tail)"
      by (rule Cons.prems(1)) (simp_all add: follows_value_facts fuel)
    then have "parse_members (Suc m) ((json_string (fst kv) @ '': '' @ dumps_at inner (snd kv)) @ ?tail)
                 = Inr ([kv], rest)"
      using closing key [of "'': '' @ dumps_at inner (snd kv) @ ?tail"]
        quote [of "'': '' @ dumps_at inner (snd kv) @ ?tail"]
      by (simp add: exn_bind_def skip_ws_Cons skip_ws_space skip_ws_dumps_at is_ws_def
          del: parse_value.simps)
    then show ?thesis
      using Nil n by simp
  next
    case (Cons kv' kvs')
    let ?more = "join_with ?sep (map ?item (kv' # kvs'))"
    from Cons.prems(3) n Cons have fuel: "length (dumps_at inner (snd kv)) \<le> m"
      and less: "length ?more < m"
      by simp_all
    have first: "parse_value m (dumps_at inner (snd kv) @ CHR '','' # newline_indent inner @ ?more @ ?tail)
                   = Inr (snd kv, CHR '','' # newline_indent inner @ ?more @ ?tail)"
      by (rule Cons.prems(1)) (simp_all add: follows_value_facts fuel)
    have "parse_members m (?more @ ?tail) = Inr (kv' # kvs', rest)"
      using Cons.IH [of m] Cons.prems(1) less Cons by simp
    then have rest: "parse_members m (skip_ws (newline_indent inner @ ?more @ ?tail))
                   = Inr (kvs, rest)"
      using Cons by (simp add: skip_ws_newline_indent member_start)
    have "parse_members (Suc m)
            ((json_string (fst kv) @ '': '' @ dumps_at inner (snd kv))
             @ CHR '','' # newline_indent inner @ ?more @ ?tail)
          = Inr (kv # kvs, rest)"
      using first rest
        key [of "'': '' @ dumps_at inner (snd kv) @ CHR '','' # newline_indent inner @ ?more @ ?tail"]
        quote [of "'': '' @ dumps_at inner (snd kv) @ CHR '','' # newline_indent inner @ ?more @ ?tail"]
      by (simp add: exn_bind_def skip_ws_Cons skip_ws_space skip_ws_dumps_at is_ws_def
          del: parse_value.simps)
    then show ?thesis
      using Cons n by simp
  qed
qed

lemma dict_set_fresh: "k \<notin> set (map fst d) \<Longrightarrow> dict_set d (k, v) = d @ [(k, v)]"
  by (simp add: dict_set_def)

lemma foldl_dict_set_distinct:
  assumes "distinct (map fst (d @ kvs))"
  shows "foldl dict_set d kvs = d @ kvs"
  using assms
proof (induction kvs arbitrary: d)
  case Nil
  show ?case by simp
next
  case (Cons kv kvs)
  from Cons.prems have fresh: "fst kv \<notin> set (map fst d)"
    by auto
  then have step: "dict_set d kv = d @ [kv]"
    using dict_set_fresh [of "fst kv" d "snd kv"] by simp
  from Cons.prems have "distinct (map fst ((d @ [kv]) @ kvs))"
    by simp
  from Cons.IH [OF this] step show ?case
    by simp
qed

lemma dict_of_pairs_distinct: "distinct (map fst kvs) \<Longrightarrow> dict_of_pairs kvs = kvs"
  using foldl_dict_set_distinct [of "[]" kvs] by (simp add: dict_of_pairs_def)

subsection \<open>Every value\<close>

lemma parse_value_dumps_at:
  assumes "wf_json v" and "follows_value rest" and "length (dumps_at level v) \<le> n"
  shows "parse_value n (dumps_at level v @ rest) = Inr (v, rest)"
  using assms
proof (induction v arbitrary: level n rest)
  case JNull
  then obtain m where "n = Suc m" by (cases n) auto
  then show ?case by simp
next
  case (JBool b)
  then obtain m where "n = Suc m" by (cases n) (auto split: if_splits)
  then show ?case using parse_value_bool [of m b rest] by simp
next
  case (JInt i)
  from JInt(3) length_dumps_at [of level "JInt i"] obtain m where "n = Suc m"
    by (cases n) auto
  then show ?case using parse_value_int [OF JInt(2), of m i] by simp
next
  case (JStr s)
  from JStr(3) length_dumps_at [of level "JStr s"] obtain m where "n = Suc m"
    by (cases n) auto
  then show ?case using parse_value_string [of m s rest] by simp
next
  case (JArr xs)
  show ?case
  proof (cases "xs = []")
    case True
    with JArr.prems(3) obtain m where "n = Suc m" by (cases n) auto
    with True show ?thesis
      by (simp add: skip_ws_Cons is_ws_def)
  next
    case False
    let ?texts = "join_with (CHR '','' # newline_indent (Suc level)) (map (dumps_at (Suc level)) xs)"
    from JArr.prems(3) False obtain m where n: "n = Suc m" and less: "length ?texts < m"
      by (cases n) (auto simp: newline_indent_def)
    have each: "parse_value k (dumps_at l x @ r) = Inr (x, r)"
      if "x \<in> set xs" "follows_value r" "length (dumps_at l x) \<le> k" for x l k r
      using JArr.IH [OF that(1) _ that(2,3)] JArr.prems(1) that(1)
      by (simp add: list_all_iff)
    have elements: "parse_elements m (?texts @ newline_indent level @ CHR '']'' # rest)
                      = Inr (xs, rest)"
      using each False less by (rule parse_elements_roundtrip)
    obtain x xs' where xs: "xs = x # xs'"
      using False by (cases xs) auto
    have inner: "skip_ws (newline_indent (Suc level) @ ?texts @ newline_indent level @ CHR '']'' # rest)
                   = ?texts @ newline_indent level @ CHR '']'' # rest"
      unfolding skip_ws_newline_indent xs by (simp add: join_with_start)
    have open_bracket: "?texts @ t \<noteq> []" "hd (?texts @ t) \<noteq> CHR '']''" for t
      using hd_dumps_at [of "Suc level" x] value_start_facts
      unfolding xs by (cases xs'; simp add: hd_append)+
    show ?thesis
      using False n inner elements open_bracket
      by (simp add: exn_bind_def)
  qed
next
  case (JObj kvs)
  show ?case
  proof (cases "kvs = []")
    case True
    with JObj.prems(3) obtain m where "n = Suc m" by (cases n) auto
    with True show ?thesis
      by (simp add: skip_ws_Cons is_ws_def)
  next
    case False
    let ?texts = "join_with (CHR '','' # newline_indent (Suc level))
                    (map (\<lambda>kv. json_string (fst kv) @ '': '' @ dumps_at (Suc level) (snd kv)) kvs)"
    from JObj.prems(3) False obtain m where n: "n = Suc m" and less: "length ?texts < m"
      by (cases n) (auto simp: newline_indent_def)
    have each: "parse_value k (dumps_at l (snd kv) @ r) = Inr (snd kv, r)"
      if "kv \<in> set kvs" "follows_value r" "length (dumps_at l (snd kv)) \<le> k" for kv l k r
    proof -
      from that(1) JObj.prems(1) have "wf_json (snd kv)"
        by (simp add: list_all_iff)
      moreover have "snd kv \<in> Basic_BNFs.snds kv"
        by (cases kv) simp
      ultimately show ?thesis
        using JObj.IH [OF that(1) _ _ that(2,3)] by blast
    qed
    have members: "parse_members m (?texts @ newline_indent level @ CHR ''}'' # rest)
                      = Inr (kvs, rest)"
      using each False less by (rule parse_members_roundtrip)
    obtain kv kvs' where kvs: "kvs = kv # kvs'"
      using False by (cases kvs) auto
    have inner: "skip_ws (newline_indent (Suc level) @ ?texts @ newline_indent level @ CHR ''}'' # rest)
                   = ?texts @ newline_indent level @ CHR ''}'' # rest"
      unfolding skip_ws_newline_indent kvs by (simp add: member_start)
    have open_brace: "?texts @ t \<noteq> []" "hd (?texts @ t) \<noteq> CHR ''}''" for t
      unfolding kvs by (cases kvs'; simp add: json_string_def)+
    from JObj.prems(1) have "dict_of_pairs kvs = kvs"
      by (simp add: dict_of_pairs_distinct)
    then show ?thesis
      using False n inner members open_brace
      by (simp add: exn_bind_def)
  qed
qed

theorem json_loads_json_dumps:
  assumes "wf_json v"
  shows "json_loads (json_dumps v) = Inr v"
proof -
  have "parse_value (Suc (length (dumps_at 0 v))) (dumps_at 0 v @ []) = Inr (v, [])"
    using assms by (rule parse_value_dumps_at) (simp_all add: follows_value_facts)
  moreover have "skip_ws (dumps_at 0 v) = dumps_at 0 v"
    using skip_ws_dumps_at [of 0 v "[]"] by simp
  ultimately show ?thesis
    by (simp add: json_loads_def json_dumps_def exn_bind_def skip_ws_Nil)
qed

section \<open>Evaluation rules\<close>

lemma contains_Nil: "contains sub [] = (sub = [])"
  by (simp add: contains_def)

lemma contains_Cons: "contains sub (c # s) = (prefix sub (c # s) \<or> contains sub s)"
  by (simp add: contains_def sublist_Cons_right)

lemma exn_bind_Inr: "exn_bind (Inr x) f = f x"
  by (simp add: exn_bind_def)

lemma exn_bind_Inl: "exn_bind (Inl e) f = Inl e"
  by (simp add: exn_bind_def)

lemmas eval_contains = contains_Nil contains_Cons

lemmas eval_lower = lower_def char_lower_def upper_letters_def lower_letters_def

lemmas eval_path = schema_file_def result_file_def prompt_file_def default_config_def
  posix_join_def path_root_def path_text_def path_parts_def

lemma furnace_paths:
  "schema_file default_config ''furnace'' = ''FactoryForge/Assets/furnace_schema.json''"
  "result_file default_config ''furnace'' = ''.machine-ui-test-results/furnace_test_raw.json''"
  "prompt_file default_config ''furnace'' = ''.machine-ui-test-results/furnace_fix_prompt.md''"
  "schema_dir default_config = ''FactoryForge/Assets''"
  by (simp_all add: eval_path)

lemma test_schema_ok:
  "write_error fs (result_file cfg machine_type) = None \<Longrightarrow>
   test_schema cfg (ok_reply result) fs machine_type
     = (store fs (result_file cfg machine_type) (json_dumps result), result)"
  by (simp add: test_schema_def post_command_def ok_reply_def raise_for_status_def)

lemma after_test_nodes:
  "node_at (after_test result) (result_file default_config ''furnace'') = File (json_dumps result)"
  "node_at (after_test result) (schema_file default_config ''furnace'') = Missing"
  "write_error (after_test result) p = None"
  by (simp_all add: after_test_def tested_key_def test_schema_ok empty_fs_def store_def
      furnace_paths)

lemma after_test_load_result:
  "wf_json result \<Longrightarrow>
   load_test_results default_config (after_test result) ''furnace'' = Inr result"
  by (simp add: load_test_results_def load_json_file_def after_test_nodes json_loads_json_dumps)

lemma after_test_load_schema:
  "load_schema default_config (after_test result) ''furnace'' = Inr (JObj [])"
  by (simp add: load_schema_def load_json_file_def after_test_nodes)

lemma wf_failed_result: "wf_json (failed_result errors)"
  by (simp add: failed_result_def list_all_iff)

lemma empty_fs_loads:
  "load_test_results cfg empty_fs machine_type = Inr (JObj [])"
  "load_schema cfg empty_fs machine_type = Inr (JObj [])"
  by (simp_all add: load_test_results_def load_schema_def load_json_file_def empty_fs_def)

lemma corrupt_schema_result:
  "node_at (corrupt_schema fs) (result_file default_config ''furnace'')
     = node_at fs (result_file default_config ''furnace'')"
  by (simp add: corrupt_schema_def store_def furnace_paths)

lemma corrupt_text: "json_loads ''{machineKind: furnace''
    = Inl (JSONDecodeError ''Expecting property name enclosed in double quotes'')"
  by code_simp

lemma corrupt_schema_load:
  "load_schema default_config (corrupt_schema fs) ''furnace''
     = Inl (JSONDecodeError ''Expecting property name enclosed in double quotes'')"
  by (simp add: corrupt_schema_def store_def load_schema_def load_json_file_def corrupt_text)

section \<open>What \<^verbatim>\<open>json.dump\<close> writes for a value of \<^verbatim>\<open>json.load\<close>\<close>







section \<open>The stores\<close>

text \<open>
  Claim C8, as stated: for every key whose schema file (or result file) does not exist, the
  load returns the empty mapping and never raises. It fails for a key so long that the
  file system refuses the name: no such file exists, and \<^verbatim>\<open>Path.exists()\<close> raises the
  \<^verbatim>\<open>OSError\<close> instead of returning \<^verbatim>\<open>False\<close>.
\<close>

theorem load_absent_is_empty_counterexample:
  "node_at name_limit_fs (schema_file default_config (replicate 250 CHR ''a''))
     = Inaccessible ''File name too long''
   \<and> load_schema default_config name_limit_fs (replicate 250 CHR ''a'')
     = Inl (OSError ''File name too long'')
   \<and> node_at name_limit_fs (result_file default_config (replicate 250 CHR ''a''))
     = Inaccessible ''File name too long''
   \<and> load_test_results default_config name_limit_fs (replicate 250 CHR ''a'')
     = Inl (OSError ''File name too long'')"
  by code_simp

text \<open>
  Claim C8, amended. For a key whose schema file (or result file) does not exist, the load
  returns the empty mapping and raises nothing whenever \<^verbatim>\<open>Path.exists()\<close> can examine the
  path and returns \<^verbatim>\<open>False\<close>; when it cannot, the \<^verbatim>\<open>OSError\<close> of \<^verbatim>\<open>exists()\<close> leaves the
  load.
\<close>

theorem load_absent_is_empty:
  "(node_at fs (schema_file cfg machine_type) = Missing \<longrightarrow>
      load_schema cfg fs machine_type = Inr (JObj []))
   \<and> (node_at fs (result_file cfg machine_type) = Missing \<longrightarrow>
      load_test_results cfg fs machine_type = Inr (JObj []))
   \<and> (\<forall>msg. node_at fs (schema_file cfg machine_type) = Inaccessible msg \<longrightarrow>
      load_schema cfg fs machine_type = Inl (OSError msg))
   \<and> (\<forall>msg. node_at fs (result_file cfg machine_type) = Inaccessible msg \<longrightarrow>
      load_test_results cfg fs machine_type = Inl (OSError msg))"
  by (simp add: load_schema_def load_test_results_def load_json_file_def)

theorem load_absent_is_empty_witness:
  "node_at empty_fs (schema_file default_config ''furnace'') = Missing
   \<and> load_schema default_config empty_fs ''furnace'' = Inr (JObj [])
   \<and> node_at empty_fs (result_file default_config ''furnace'') = Missing
   \<and> load_test_results default_config empty_fs ''furnace'' = Inr (JObj [])
   \<and> node_at name_limit_fs (schema_file default_config (replicate 250 CHR ''a''))
       = Inaccessible ''File name too long''
   \<and> load_schema default_config name_limit_fs (replicate 250 CHR ''a'')
       = Inl (OSError ''File name too long'')
   \<and> node_at name_limit_fs (result_file default_config (replicate 250 CHR ''a''))
       = Inaccessible ''File name too long''
   \<and> load_test_results default_config name_limit_fs (replicate 250 CHR ''a'')
       = Inl (OSError ''File name too long'')"
proof -
  have absent: "node_at empty_fs (schema_file default_config ''furnace'') = Missing"
    "node_at empty_fs (result_file default_config ''furnace'') = Missing"
    by (simp_all add: empty_fs_def)
  have refused:
    "node_at name_limit_fs (schema_file default_config (replicate 250 CHR ''a''))
       = Inaccessible ''File name too long''"
    "node_at name_limit_fs (result_file default_config (replicate 250 CHR ''a''))
       = Inaccessible ''File name too long''"
    by code_simp+
  from load_absent_is_empty [of empty_fs default_config "''furnace''"]
    load_absent_is_empty [of name_limit_fs default_config "replicate 250 CHR ''a''"]
    absent refused
  show ?thesis by simp
qed




section \<open>The remote test call\<close>




section \<open>The loop of the suggestion generator\<close>

lemma analyze_error_cases:
  "analyze_error cfg machine_type acc error = acc
   \<or> (\<exists>entry. analyze_error cfg machine_type acc error = acc @ [entry])"
  by (simp add: analyze_error_def Let_def)

lemma analyze_error_append:
  "analyze_error cfg machine_type acc error = acc @ analyze_error cfg machine_type [] error"
  by (simp add: analyze_error_def Let_def)

lemma length_analyze_error:
  "length (analyze_error cfg machine_type acc error) \<le> Suc (length acc)"
  using analyze_error_cases [of cfg machine_type acc error] by auto

lemma analyze_errors_acc:
  "analyze_errors cfg machine_type acc items =
     (case analyze_errors cfg machine_type [] items of
        Inl e \<Rightarrow> Inl e
      | Inr out \<Rightarrow> Inr (acc @ out))"
proof (induction items arbitrary: acc)
  case Nil
  show ?case by simp
next
  case (Cons item items)
  show ?case
  proof (cases item)
    case (JStr error)
    let ?one = "analyze_error cfg machine_type [] error"
    have step: "analyze_error cfg machine_type acc error = acc @ ?one"
      by (rule analyze_error_append)
    have "analyze_errors cfg machine_type acc (item # items)
            = analyze_errors cfg machine_type (acc @ ?one) items"
      using JStr step by simp
    also have "\<dots> = (case analyze_errors cfg machine_type [] items of
                        Inl e \<Rightarrow> Inl e | Inr out \<Rightarrow> Inr ((acc @ ?one) @ out))"
      by (rule Cons.IH)
    finally have left: "analyze_errors cfg machine_type acc (item # items)
            = (case analyze_errors cfg machine_type [] items of
                 Inl e \<Rightarrow> Inl e | Inr out \<Rightarrow> Inr (acc @ ?one @ out))"
      by (simp split: sum.splits)
    have "analyze_errors cfg machine_type [] (item # items)
            = analyze_errors cfg machine_type ?one items"
      using JStr by simp
    also have "\<dots> = (case analyze_errors cfg machine_type [] items of
                        Inl e \<Rightarrow> Inl e | Inr out \<Rightarrow> Inr (?one @ out))"
      by (rule Cons.IH)
    finally have right: "analyze_errors cfg machine_type [] (item # items)
            = (case analyze_errors cfg machine_type [] items of
                 Inl e \<Rightarrow> Inl e | Inr out \<Rightarrow> Inr (?one @ out))" .
    show ?thesis
      unfolding left right by (simp split: sum.splits)
  qed simp_all
qed

lemma analyze_errors_length:
  "analyze_errors cfg machine_type [] items = Inr out \<Longrightarrow> length out \<le> length items"
proof (induction items arbitrary: out)
  case Nil
  then show ?case by simp
next
  case (Cons item items)
  show ?case
  proof (cases item)
    case (JStr error)
    let ?one = "analyze_error cfg machine_type [] error"
    from Cons.prems JStr have "analyze_errors cfg machine_type ?one items = Inr out"
      by simp
    then obtain rest where rest:
      "analyze_errors cfg machine_type [] items = Inr rest" "out = ?one @ rest"
      by (subst (asm) analyze_errors_acc) (auto split: sum.splits)
    from Cons.IH [OF rest(1)] have "length rest \<le> length items" .
    moreover have "length ?one \<le> 1"
      using length_analyze_error [of cfg machine_type "[]" error] by simp
    ultimately show ?thesis using rest(2) by simp
  next
    case JNull with Cons.prems show ?thesis by simp
  next
    case (JBool b) with Cons.prems show ?thesis by simp
  next
    case (JInt i) with Cons.prems show ?thesis by simp
  next
    case (JArr xs) with Cons.prems show ?thesis by simp
  next
    case (JObj kvs) with Cons.prems show ?thesis by simp
  qed
qed

lemma analyze_errors_append:
  "analyze_errors cfg machine_type [] (xs @ ys) =
     (case analyze_errors cfg machine_type [] xs of
        Inl e \<Rightarrow> Inl e
      | Inr first \<Rightarrow>
          (case analyze_errors cfg machine_type [] ys of
             Inl e \<Rightarrow> Inl e
           | Inr rest \<Rightarrow> Inr (first @ rest)))"
proof (induction xs)
  case Nil
  show ?case by (simp split: sum.splits)
next
  case (Cons item xs)
  show ?case
  proof (cases item)
    case (JStr error)
    let ?one = "analyze_error cfg machine_type [] error"
    have "analyze_errors cfg machine_type [] ((item # xs) @ ys)
            = analyze_errors cfg machine_type ?one (xs @ ys)"
      using JStr by simp
    also have "\<dots> = (case analyze_errors cfg machine_type [] (xs @ ys) of
                        Inl e \<Rightarrow> Inl e | Inr out \<Rightarrow> Inr (?one @ out))"
      by (rule analyze_errors_acc)
    finally have left: "analyze_errors cfg machine_type [] ((item # xs) @ ys)
            = (case analyze_errors cfg machine_type [] (xs @ ys) of
                        Inl e \<Rightarrow> Inl e | Inr out \<Rightarrow> Inr (?one @ out))" .
    have "analyze_errors cfg machine_type [] (item # xs)
            = analyze_errors cfg machine_type ?one xs"
      using JStr by simp
    also have "\<dots> = (case analyze_errors cfg machine_type [] xs of
                        Inl e \<Rightarrow> Inl e | Inr out \<Rightarrow> Inr (?one @ out))"
      by (rule analyze_errors_acc)
    finally have right: "analyze_errors cfg machine_type [] (item # xs)
            = (case analyze_errors cfg machine_type [] xs of
                        Inl e \<Rightarrow> Inl e | Inr out \<Rightarrow> Inr (?one @ out))" .
    show ?thesis
      unfolding left right Cons.IH by (simp split: sum.splits)
  qed simp_all
qed

lemma get_fix_suggestions_Inr:
  assumes "get_fix_suggestions cfg fs machine_type = Inr r"
  shows "\<exists>test_result schema.
     load_test_results cfg fs machine_type = Inr test_result
     \<and> load_schema cfg fs machine_type = Inr schema
     \<and> (if \<not> truthy test_result then r = no_test_results
        else \<exists>errors warnings items fixes_needed snippet.
          py_get test_result ''errors'' (JArr []) = Inr errors
          \<and> py_get test_result ''warnings'' (JArr []) = Inr warnings
          \<and> py_iter errors = Inr items
          \<and> analyze_errors cfg machine_type [] items = Inr fixes_needed
          \<and> (if truthy schema then schema_snippet schema else Inr (JObj [])) = Inr snippet
          \<and> r = JObj
               [(''machine_type'', JStr machine_type),
                (''schema_file'', JStr (schema_file cfg machine_type)),
                (''errors'', errors),
                (''warnings'', warnings),
                (''fixes_needed'', JArr fixes_needed),
                (''schema_snippet'', snippet)])"
  using assms
  by (auto simp: get_fix_suggestions_def exn_bind_def split: sum.splits if_splits)

lemma analyze_errors_strings:
  "\<exists>out. analyze_errors cfg machine_type acc (map JStr errors) = Inr out"
  by (induction errors arbitrary: acc) simp_all

lemma get_fix_suggestions_returns:
  assumes "load_test_results cfg fs machine_type = Inr (JObj kvs)"
    and "kvs \<noteq> []"
    and "map_of kvs ''errors'' = Some (JArr (map JStr errors))"
    and "load_schema cfg fs machine_type = Inr schema"
    and "truthy schema \<longrightarrow> (\<exists>snippet. schema_snippet schema = Inr snippet)"
  shows "\<exists>suggestions. get_fix_suggestions cfg fs machine_type = Inr suggestions
           \<and> suggestions \<noteq> no_test_results"
proof -
  obtain out where "analyze_errors cfg machine_type [] (map JStr errors) = Inr out"
    using analyze_errors_strings by blast
  with assms show ?thesis
    by (auto simp: get_fix_suggestions_def exn_bind_def no_test_results_def)
qed

section \<open>Suggestions for given test results\<close>

lemma header_entry:
  "analyze_error cfg machine_type [] ''Schema validation failed: missing header in group 2'' =
     [JObj [(''issue'', JStr ''Missing group header''),
            (''action'', JStr ''Add 'header' field to all groups in schema''),
            (''priority'', JStr ''high''),
            (''schema_section'', JStr ''groups'')]]"
  by (simp add: analyze_error_def eval_lower eval_contains)

text \<open>
  Claim C5. With a result file whose text decodes to
  \<^verbatim>\<open>{"success": false, "errors": ["Schema validation failed: missing header in group 2"], "warnings": []}\<close>
  and a schema that loads (absent, or one whose summary can be computed), the suggestions
  are returned and their \<^verbatim>\<open>fixes_needed\<close> has exactly one entry, with issue
  \<^verbatim>\<open>Missing group header\<close> and priority \<^verbatim>\<open>high\<close>.
\<close>

theorem header_scenario:
  assumes "node_at fs (result_file cfg machine_type) = File text"
    and "json_loads text = Inr (JObj
      [(''success'', JBool False),
       (''errors'', JArr [JStr ''Schema validation failed: missing header in group 2'']),
       (''warnings'', JArr [])])"
    and "load_schema cfg fs machine_type = Inr schema"
    and "truthy schema \<longrightarrow> (\<exists>snippet. schema_snippet schema = Inr snippet)"
  shows "\<exists>suggestions fix. get_fix_suggestions cfg fs machine_type = Inr suggestions
     \<and> py_getitem suggestions ''fixes_needed'' = Inr (JArr [fix])
     \<and> py_getitem fix ''issue'' = Inr (JStr ''Missing group header'')
     \<and> py_getitem fix ''priority'' = Inr (JStr ''high'')"
proof -
  let ?error = "''Schema validation failed: missing header in group 2''"
  let ?result = "JObj [(''success'', JBool False), (''errors'', JArr [JStr ?error]),
                       (''warnings'', JArr [])]"
  from assms(1,2) have loaded: "load_test_results cfg fs machine_type = Inr ?result"
    by (simp add: load_test_results_def load_json_file_def)
  have "\<exists>suggestions. get_fix_suggestions cfg fs machine_type = Inr suggestions
           \<and> suggestions \<noteq> no_test_results"
    by (rule get_fix_suggestions_returns [where errors = "[?error]", OF loaded _ _ assms(3,4)])
       simp_all
  then obtain suggestions where
    returned: "get_fix_suggestions cfg fs machine_type = Inr suggestions" by blast
  from get_fix_suggestions_Inr [OF returned] loaded
  have "py_getitem suggestions ''fixes_needed''
          = Inr (JArr (analyze_error cfg machine_type [] ?error))"
    by (auto simp: no_test_results_def)
  with returned show ?thesis by (simp add: header_entry)
qed

theorem header_scenario_witness:
  "node_at (after_test (failed_result [''Schema validation failed: missing header in group 2'']))
       (result_file default_config ''furnace'')
     = File (json_dumps (failed_result [''Schema validation failed: missing header in group 2'']))
   \<and> json_loads (json_dumps (failed_result [''Schema validation failed: missing header in group 2'']))
     = Inr (JObj
      [(''success'', JBool False),
       (''errors'', JArr [JStr ''Schema validation failed: missing header in group 2'']),
       (''warnings'', JArr [])])
   \<and> load_schema default_config
        (after_test (failed_result [''Schema validation failed: missing header in group 2'']))
        ''furnace'' = Inr (JObj [])
   \<and> \<not> truthy (JObj [])
   \<and> (\<exists>suggestions fix.
        get_fix_suggestions default_config
          (after_test (failed_result [''Schema validation failed: missing header in group 2'']))
          ''furnace'' = Inr suggestions
        \<and> py_getitem suggestions ''fixes_needed'' = Inr (JArr [fix])
        \<and> py_getitem fix ''issue'' = Inr (JStr ''Missing group header'')
        \<and> py_getitem fix ''priority'' = Inr (JStr ''high''))"
proof -
  let ?result = "failed_result [''Schema validation failed: missing header in group 2'']"
  let ?fs = "after_test ?result"
  have stored: "node_at ?fs (result_file default_config ''furnace'') = File (json_dumps ?result)"
    by (rule after_test_nodes)
  have decoded: "json_loads (json_dumps ?result) = Inr (JObj
      [(''success'', JBool False),
       (''errors'', JArr [JStr ''Schema validation failed: missing header in group 2'']),
       (''warnings'', JArr [])])"
    using json_loads_json_dumps [OF wf_failed_result, of "[''Schema validation failed: missing header in group 2'']"]
    by (simp add: failed_result_def)
  have schema: "load_schema default_config ?fs ''furnace'' = Inr (JObj [])"
    by (rule after_test_load_schema)
  have usable: "truthy (JObj []) \<longrightarrow> (\<exists>snippet. schema_snippet (JObj []) = Inr snippet)"
    by simp
  from stored decoded schema header_scenario [OF stored decoded schema usable] show ?thesis
    by simp
qed

lemma not_found_covers:
  "\<not> contains ''not found'' s \<Longrightarrow> \<not> contains ''file not found'' s"
  by (auto simp: contains_def sublist_def) (metis append_Cons append_assoc append_Nil)

lemma process_label_entry:
  assumes "\<not> contains ''not found'' (lower error)"
    and "contains ''validation failed'' (lower error) \<or> contains ''missing'' (lower error)"
    and "\<not> contains ''header'' (lower error)"
    and "contains ''process'' (lower error)"
    and "contains ''label'' (lower error)"
  shows "analyze_error cfg machine_type [] error =
     [JObj [(''issue'', JStr ''Missing process label''),
                 (''action'', JStr ''Add 'label.text' field to process in schema''),
                 (''priority'', JStr ''high''),
                 (''schema_section'', JStr ''process'')]]"
  using assms not_found_covers [of "lower error"]
  by (simp add: analyze_error_def Let_def)

text \<open>
  Claim C4. The \<^verbatim>\<open>missing\<close> tier is tested before the \<^verbatim>\<open>invalid\<close>/\<^verbatim>\<open>flow\<close> tier: for
  every error of the test result that reaches the \<^verbatim>\<open>missing\<close> tier (it contains
  \<^verbatim>\<open>validation failed\<close> or \<^verbatim>\<open>missing\<close>, and not \<^verbatim>\<open>not found\<close>) and that contains
  \<^verbatim>\<open>process\<close> and \<^verbatim>\<open>label\<close> and not \<^verbatim>\<open>header\<close>, the one entry the generator emits for
  it, at its place between the entries of the earlier and of the later errors, is the
  \<^verbatim>\<open>Missing process label\<close> one, whether or not the error also contains \<^verbatim>\<open>invalid\<close> or
  \<^verbatim>\<open>flow\<close>. The string \<^verbatim>\<open>missing process label\<close> is such an error; so is
  \<^verbatim>\<open>Invalid flow: process label missing\<close>, which both tiers match.
\<close>

theorem process_label_before_flow:
  assumes "load_test_results cfg fs machine_type = Inr test_result"
    and "truthy test_result"
    and "py_get test_result ''errors'' (JArr []) = Inr (JArr (earlier @ JStr error # later))"
    and "get_fix_suggestions cfg fs machine_type = Inr suggestions"
    and "\<not> contains ''not found'' (lower error)"
    and "contains ''validation failed'' (lower error) \<or> contains ''missing'' (lower error)"
    and "\<not> contains ''header'' (lower error)"
    and "contains ''process'' (lower error)"
    and "contains ''label'' (lower error)"
  shows "\<exists>before after.
       analyze_errors cfg machine_type [] earlier = Inr before
     \<and> analyze_errors cfg machine_type [] later = Inr after
     \<and> py_getitem suggestions ''fixes_needed'' = Inr (JArr (before @
          [JObj [(''issue'', JStr ''Missing process label''),
                 (''action'', JStr ''Add 'label.text' field to process in schema''),
                 (''priority'', JStr ''high''),
                 (''schema_section'', JStr ''process'')]] @ after))"
proof -
  let ?items = "earlier @ JStr error # later"
  have entry: "analyze_error cfg machine_type [] error =
     [JObj [(''issue'', JStr ''Missing process label''),
                 (''action'', JStr ''Add 'label.text' field to process in schema''),
                 (''priority'', JStr ''high''),
                 (''schema_section'', JStr ''process'')]]"
    by (rule process_label_entry [OF assms(5-9)])
  from get_fix_suggestions_Inr [OF assms(4)] assms(1,2,3)
  obtain fixes_needed where
    run: "analyze_errors cfg machine_type [] ?items = Inr fixes_needed" and
    field: "py_getitem suggestions ''fixes_needed'' = Inr (JArr fixes_needed)"
    by auto
  from run obtain before rest where
    before: "analyze_errors cfg machine_type [] earlier = Inr before" and
    rest: "analyze_errors cfg machine_type [] (JStr error # later) = Inr rest" and
    whole: "fixes_needed = before @ rest"
    by (subst (asm) analyze_errors_append) (auto split: sum.splits)
  from rest have "analyze_errors cfg machine_type
      (analyze_error cfg machine_type [] error) later = Inr rest"
    by simp
  then obtain after where
    after: "analyze_errors cfg machine_type [] later = Inr after" and
    rest_eq: "rest = analyze_error cfg machine_type [] error @ after"
    by (subst (asm) analyze_errors_acc) (auto split: sum.splits)
  from before after field whole rest_eq show ?thesis
    by (simp add: entry)
qed

lemma label_returned:
  "get_fix_suggestions default_config (after_test (failed_result [''flow is invalid'', ''missing process label'', ''Invalid flow: process label missing''])) ''furnace''
   = Inr (JObj
       [(''machine_type'', JStr ''furnace''),
        (''schema_file'', JStr ''FactoryForge/Assets/furnace_schema.json''),
        (''errors'', JArr [JStr ''flow is invalid'', JStr ''missing process label'',
                           JStr ''Invalid flow: process label missing'']),
        (''warnings'', JArr []),
        (''fixes_needed'', JArr
          [JObj [(''issue'', JStr ''Invalid flow position''),
                 (''action'', JStr ''Check group anchor positions relative to process anchor''),
                 (''priority'', JStr ''medium''),
                 (''schema_section'', JStr ''groups'')],
           JObj [(''issue'', JStr ''Missing process label''),
                 (''action'', JStr ''Add 'label.text' field to process in schema''),
                 (''priority'', JStr ''high''),
                 (''schema_section'', JStr ''process'')],
           JObj [(''issue'', JStr ''Missing process label''),
                 (''action'', JStr ''Add 'label.text' field to process in schema''),
                 (''priority'', JStr ''high''),
                 (''schema_section'', JStr ''process'')]]),
        (''schema_snippet'', JObj [])])"
  by code_simp

lemma label_words:
  "\<not> contains ''not found'' (lower ''missing process label'')
   \<and> contains ''missing'' (lower ''missing process label'')
   \<and> \<not> contains ''header'' (lower ''missing process label'')
   \<and> contains ''process'' (lower ''missing process label'')
   \<and> contains ''label'' (lower ''missing process label'')
   \<and> \<not> contains ''not found'' (lower ''Invalid flow: process label missing'')
   \<and> contains ''missing'' (lower ''Invalid flow: process label missing'')
   \<and> \<not> contains ''header'' (lower ''Invalid flow: process label missing'')
   \<and> contains ''process'' (lower ''Invalid flow: process label missing'')
   \<and> contains ''label'' (lower ''Invalid flow: process label missing'')
   \<and> contains ''invalid'' (lower ''Invalid flow: process label missing'')
   \<and> contains ''flow'' (lower ''Invalid flow: process label missing'')"
  by code_simp

theorem process_label_before_flow_witness:
  "load_test_results default_config (after_test (failed_result [''flow is invalid'', ''missing process label'', ''Invalid flow: process label missing''])) ''furnace''
     = Inr (failed_result [''flow is invalid'', ''missing process label'', ''Invalid flow: process label missing''])
   \<and> truthy (failed_result [''flow is invalid'', ''missing process label'', ''Invalid flow: process label missing''])
   \<and> py_get (failed_result [''flow is invalid'', ''missing process label'', ''Invalid flow: process label missing'']) ''errors'' (JArr [])
       = Inr (JArr [JStr ''flow is invalid'', JStr ''missing process label'',
                    JStr ''Invalid flow: process label missing''])
   \<and> get_fix_suggestions default_config (after_test (failed_result [''flow is invalid'', ''missing process label'', ''Invalid flow: process label missing''])) ''furnace''
     = Inr (JObj
       [(''machine_type'', JStr ''furnace''),
        (''schema_file'', JStr ''FactoryForge/Assets/furnace_schema.json''),
        (''errors'', JArr [JStr ''flow is invalid'', JStr ''missing process label'',
                           JStr ''Invalid flow: process label missing'']),
        (''warnings'', JArr []),
        (''fixes_needed'', JArr
          [JObj [(''issue'', JStr ''Invalid flow position''),
                 (''action'', JStr ''Check group anchor positions relative to process anchor''),
                 (''priority'', JStr ''medium''),
                 (''schema_section'', JStr ''groups'')],
           JObj [(''issue'', JStr ''Missing process label''),
                 (''action'', JStr ''Add 'label.text' field to process in schema''),
                 (''priority'', JStr ''high''),
                 (''schema_section'', JStr ''process'')],
           JObj [(''issue'', JStr ''Missing process label''),
                 (''action'', JStr ''Add 'label.text' field to process in schema''),
                 (''priority'', JStr ''high''),
                 (''schema_section'', JStr ''process'')]]),
        (''schema_snippet'', JObj [])])
   \<and> \<not> contains ''not found'' (lower ''missing process label'')
   \<and> contains ''missing'' (lower ''missing process label'')
   \<and> \<not> contains ''header'' (lower ''missing process label'')
   \<and> contains ''process'' (lower ''missing process label'')
   \<and> contains ''label'' (lower ''missing process label'')
   \<and> \<not> contains ''not found'' (lower ''Invalid flow: process label missing'')
   \<and> contains ''missing'' (lower ''Invalid flow: process label missing'')
   \<and> \<not> contains ''header'' (lower ''Invalid flow: process label missing'')
   \<and> contains ''process'' (lower ''Invalid flow: process label missing'')
   \<and> contains ''label'' (lower ''Invalid flow: process label missing'')
   \<and> contains ''invalid'' (lower ''Invalid flow: process label missing'')
   \<and> contains ''flow'' (lower ''Invalid flow: process label missing'')
   \<and> (\<exists>before after.
         analyze_errors default_config ''furnace'' [] [JStr ''flow is invalid''] = Inr before
       \<and> analyze_errors default_config ''furnace'' []
           [JStr ''Invalid flow: process label missing''] = Inr after
       \<and> py_getitem (JObj
       [(''machine_type'', JStr ''furnace''),
        (''schema_file'', JStr ''FactoryForge/Assets/furnace_schema.json''),
        (''errors'', JArr [JStr ''flow is invalid'', JStr ''missing process label'',
                           JStr ''Invalid flow: process label missing'']),
        (''warnings'', JArr []),
        (''fixes_needed'', JArr
          [JObj [(''issue'', JStr ''Invalid flow position''),
                 (''action'', JStr ''Check group anchor positions relative to process anchor''),
                 (''priority'', JStr ''medium''),
                 (''schema_section'', JStr ''groups'')],
           JObj [(''issue'', JStr ''Missing process label''),
                 (''action'', JStr ''Add 'label.text' field to process in schema''),
                 (''priority'', JStr ''high''),
                 (''schema_section'', JStr ''process'')],
           JObj [(''issue'', JStr ''Missing process label''),
                 (''action'', JStr ''Add 'label.text' field to process in schema''),
                 (''priority'', JStr ''high''),
                 (''schema_section'', JStr ''process'')]]),
        (''schema_snippet'', JObj [])]) ''fixes_needed''
           = Inr (JArr (before @ [JObj [(''issue'', JStr ''Missing process label''),
                 (''action'', JStr ''Add 'label.text' field to process in schema''),
                 (''priority'', JStr ''high''),
                 (''schema_section'', JStr ''process'')]] @ after)))
   \<and> (\<exists>before after.
         analyze_errors default_config ''furnace'' []
           [JStr ''flow is invalid'', JStr ''missing process label''] = Inr before
       \<and> analyze_errors default_config ''furnace'' [] [] = Inr after
       \<and> py_getitem (JObj
       [(''machine_type'', JStr ''furnace''),
        (''schema_file'', JStr ''FactoryForge/Assets/furnace_schema.json''),
        (''errors'', JArr [JStr ''flow is invalid'', JStr ''missing process label'',
                           JStr ''Invalid flow: process label missing'']),
        (''warnings'', JArr []),
        (''fixes_needed'', JArr
          [JObj [(''issue'', JStr ''Invalid flow position''),
                 (''action'', JStr ''Check group anchor positions relative to process anchor''),
                 (''priority'', JStr ''medium''),
                 (''schema_section'', JStr ''groups'')],
           JObj [(''issue'', JStr ''Missing process label''),
                 (''action'', JStr ''Add 'label.text' field to process in schema''),
                 (''priority'', JStr ''high''),
                 (''schema_section'', JStr ''process'')],
           JObj [(''issue'', JStr ''Missing process label''),
                 (''action'', JStr ''Add 'label.text' field to process in schema''),
                 (''priority'', JStr ''high''),
                 (''schema_section'', JStr ''process'')]]),
        (''schema_snippet'', JObj [])]) ''fixes_needed''
           = Inr (JArr (before @ [JObj [(''issue'', JStr ''Missing process label''),
                 (''action'', JStr ''Add 'label.text' field to process in schema''),
                 (''priority'', JStr ''high''),
                 (''schema_section'', JStr ''process'')]] @ after)))"
proof -
  let ?mixed = "''Invalid flow: process label missing''"
  let ?result = "failed_result [''flow is invalid'', ''missing process label'', ''Invalid flow: process label missing'']"
  have loaded: "load_test_results default_config (after_test ?result) ''furnace'' = Inr ?result"
    by (rule after_test_load_result) (rule wf_failed_result)
  have true: "truthy ?result"
    by (simp add: failed_result_def)
  have first: "py_get ?result ''errors'' (JArr [])
       = Inr (JArr ([JStr ''flow is invalid''] @ JStr ''missing process label'' # [JStr ?mixed]))"
    by (simp add: failed_result_def)
  have second: "py_get ?result ''errors'' (JArr [])
       = Inr (JArr ([JStr ''flow is invalid'', JStr ''missing process label''] @ JStr ?mixed # []))"
    by (simp add: failed_result_def)
  note words = label_words
  note returned = label_returned
  have one: "\<exists>before after.
         analyze_errors default_config ''furnace'' [] [JStr ''flow is invalid''] = Inr before
       \<and> analyze_errors default_config ''furnace'' [] [JStr ?mixed] = Inr after
       \<and> py_getitem (JObj
       [(''machine_type'', JStr ''furnace''),
        (''schema_file'', JStr ''FactoryForge/Assets/furnace_schema.json''),
        (''errors'', JArr [JStr ''flow is invalid'', JStr ''missing process label'',
                           JStr ''Invalid flow: process label missing'']),
        (''warnings'', JArr []),
        (''fixes_needed'', JArr
          [JObj [(''issue'', JStr ''Invalid flow position''),
                 (''action'', JStr ''Check group anchor positions relative to process anchor''),
                 (''priority'', JStr ''medium''),
                 (''schema_section'', JStr ''groups'')],
           JObj [(''issue'', JStr ''Missing process label''),
                 (''action'', JStr ''Add 'label.text' field to process in schema''),
                 (''priority'', JStr ''high''),
                 (''schema_section'', JStr ''process'')],
           JObj [(''issue'', JStr ''Missing process label''),
                 (''action'', JStr ''Add 'label.text' field to process in schema''),
                 (''priority'', JStr ''high''),
                 (''schema_section'', JStr ''process'')]]),
        (''schema_snippet'', JObj [])]) ''fixes_needed''
           = Inr (JArr (before @ [JObj [(''issue'', JStr ''Missing process label''),
                 (''action'', JStr ''Add 'label.text' field to process in schema''),
                 (''priority'', JStr ''high''),
                 (''schema_section'', JStr ''process'')]] @ after))"
    by (rule process_label_before_flow [OF loaded true first returned]) (simp_all add: words)
  have two: "\<exists>before after.
         analyze_errors default_config ''furnace'' []
           [JStr ''flow is invalid'', JStr ''missing process label''] = Inr before
       \<and> analyze_errors default_config ''furnace'' [] [] = Inr after
       \<and> py_getitem (JObj
       [(''machine_type'', JStr ''furnace''),
        (''schema_file'', JStr ''FactoryForge/Assets/furnace_schema.json''),
        (''errors'', JArr [JStr ''flow is invalid'', JStr ''missing process label'',
                           JStr ''Invalid flow: process label missing'']),
        (''warnings'', JArr []),
        (''fixes_needed'', JArr
          [JObj [(''issue'', JStr ''Invalid flow position''),
                 (''action'', JStr ''Check group anchor positions relative to process anchor''),
                 (''priority'', JStr ''medium''),
                 (''schema_section'', JStr ''groups'')],
           JObj [(''issue'', JStr ''Missing process label''),
                 (''action'', JStr ''Add 'label.text' field to process in schema''),
                 (''priority'', JStr ''high''),
                 (''schema_section'', JStr ''process'')],
           JObj [(''issue'', JStr ''Missing process label''),
                 (''action'', JStr ''Add 'label.text' field to process in schema''),
                 (''priority'', JStr ''high''),
                 (''schema_section'', JStr ''process'')]]),
        (''schema_snippet'', JObj [])]) ''fixes_needed''
           = Inr (JArr (before @ [JObj [(''issue'', JStr ''Missing process label''),
                 (''action'', JStr ''Add 'label.text' field to process in schema''),
                 (''priority'', JStr ''high''),
                 (''schema_section'', JStr ''process'')]] @ after))"
    by (rule process_label_before_flow [OF loaded true second returned]) (simp_all add: words)
  have listed: "py_get ?result ''errors'' (JArr [])
       = Inr (JArr [JStr ''flow is invalid'', JStr ''missing process label'', JStr ?mixed])"
    by (simp add: failed_result_def)
  show ?thesis
    by (intro conjI loaded true listed returned one two)
       (simp_all only: words not_False_eq_True)
qed

text \<open>
  Claim C10, as stated: an error that contains \<^verbatim>\<open>missing\<close> but neither \<^verbatim>\<open>header\<close>
  nor both \<^verbatim>\<open>process\<close> and \<^verbatim>\<open>label\<close> contributes no entry. It fails for such an
  error that also contains \<^verbatim>\<open>not found\<close>: the first branch of the chain takes it and
  appends the \<^verbatim>\<open>Schema file missing\<close> entry.
\<close>

theorem one_entry_per_error_counterexample:
  "contains ''missing'' (lower ''Required file missing: not found'')
   \<and> \<not> contains ''header'' (lower ''Required file missing: not found'')
   \<and> \<not> (contains ''process'' (lower ''Required file missing: not found'')
        \<and> contains ''label'' (lower ''Required file missing: not found''))
   \<and> get_fix_suggestions default_config
         (after_test (failed_result [''Required file missing: not found''])) ''furnace''
       = Inr (JObj
       [(''machine_type'', JStr ''furnace''),
        (''schema_file'', JStr ''FactoryForge/Assets/furnace_schema.json''),
        (''errors'', JArr [JStr ''Required file missing: not found'']),
        (''warnings'', JArr []),
        (''fixes_needed'', JArr 
              [JObj [(''issue'', JStr ''Schema file missing''),
                     (''action'', JStr ''Create furnace_schema.json in FactoryForge/Assets''),
                     (''priority'', JStr ''high'')]]),
        (''schema_snippet'', JObj [])])"
  by code_simp

text \<open>
  Claim C10, amended. One pass of the loop body leaves \<^verbatim>\<open>fixes_needed\<close> as it is or
  appends exactly one entry, so in every suggestions object returned the list
  \<^verbatim>\<open>fixes_needed\<close> is at most as long as the list of errors the loop visited; and an
  error that contains \<^verbatim>\<open>missing\<close> but not \<^verbatim>\<open>not found\<close>, not \<^verbatim>\<open>header\<close>, and not
  both \<^verbatim>\<open>process\<close> and \<^verbatim>\<open>label\<close>, contributes no entry, whatever else it contains
  (\<^verbatim>\<open>invalid\<close> and \<^verbatim>\<open>flow\<close> included).
\<close>

theorem one_entry_per_error:
  "(\<forall>acc error. analyze_error cfg machine_type acc error = acc
       \<or> (\<exists>entry. analyze_error cfg machine_type acc error = acc @ [entry]))
   \<and> (\<forall>suggestions.
        get_fix_suggestions cfg fs machine_type = Inr suggestions
        \<and> suggestions \<noteq> no_test_results \<longrightarrow>
        (\<exists>errors items fixes_needed.
           py_getitem suggestions ''errors'' = Inr errors
           \<and> py_iter errors = Inr items
           \<and> py_getitem suggestions ''fixes_needed'' = Inr (JArr fixes_needed)
           \<and> length fixes_needed \<le> length items))
   \<and> (\<forall>acc error.
        contains ''missing'' (lower error)
        \<and> \<not> contains ''not found'' (lower error)
        \<and> \<not> contains ''header'' (lower error)
        \<and> \<not> (contains ''process'' (lower error) \<and> contains ''label'' (lower error)) \<longrightarrow>
        analyze_error cfg machine_type acc error = acc)"
proof (intro conjI allI impI)
  fix acc error
  show "analyze_error cfg machine_type acc error = acc
       \<or> (\<exists>entry. analyze_error cfg machine_type acc error = acc @ [entry])"
    by (rule analyze_error_cases)
next
  fix suggestions
  assume returned: "get_fix_suggestions cfg fs machine_type = Inr suggestions
        \<and> suggestions \<noteq> no_test_results"
  from get_fix_suggestions_Inr [of cfg fs machine_type suggestions] returned
  obtain errors warnings items fixes_needed snippet where
    items: "py_iter errors = Inr items" and
    run: "analyze_errors cfg machine_type [] items = Inr fixes_needed" and
    shape: "suggestions = JObj
               [(''machine_type'', JStr machine_type),
                (''schema_file'', JStr (schema_file cfg machine_type)),
                (''errors'', errors),
                (''warnings'', warnings),
                (''fixes_needed'', JArr fixes_needed),
                (''schema_snippet'', snippet)]"
    by (auto split: if_splits)
  from analyze_errors_length [OF run] have "length fixes_needed \<le> length items" .
  with items shape
  show "\<exists>errors items fixes_needed.
           py_getitem suggestions ''errors'' = Inr errors
           \<and> py_iter errors = Inr items
           \<and> py_getitem suggestions ''fixes_needed'' = Inr (JArr fixes_needed)
           \<and> length fixes_needed \<le> length items"
    by simp
next
  fix acc error
  assume "contains ''missing'' (lower error)
        \<and> \<not> contains ''not found'' (lower error)
        \<and> \<not> contains ''header'' (lower error)
        \<and> \<not> (contains ''process'' (lower error) \<and> contains ''label'' (lower error))"
  then show "analyze_error cfg machine_type acc error = acc"
    using not_found_covers [of "lower error"]
    by (simp add: analyze_error_def Let_def)
qed

lemma swallowed_returned:
  "get_fix_suggestions default_config
     (after_test (failed_result [''Missing value: flow is invalid''])) ''furnace''
   = Inr (JObj
       [(''machine_type'', JStr ''furnace''),
        (''schema_file'', JStr ''FactoryForge/Assets/furnace_schema.json''),
        (''errors'', JArr [JStr ''Missing value: flow is invalid'']),
        (''warnings'', JArr []),
        (''fixes_needed'', JArr []),
        (''schema_snippet'', JObj [])])"
  by code_simp

lemma swallowed_words:
  "contains ''missing'' (lower ''Missing value: flow is invalid'')
   \<and> \<not> contains ''not found'' (lower ''Missing value: flow is invalid'')
   \<and> \<not> contains ''header'' (lower ''Missing value: flow is invalid'')
   \<and> \<not> (contains ''process'' (lower ''Missing value: flow is invalid'')
        \<and> contains ''label'' (lower ''Missing value: flow is invalid''))"
  "contains ''invalid'' (lower ''Missing value: flow is invalid'')
   \<and> contains ''flow'' (lower ''Missing value: flow is invalid'')"
  by code_simp+

theorem one_entry_per_error_witness:
  "get_fix_suggestions default_config
     (after_test (failed_result [''Missing value: flow is invalid''])) ''furnace''
     = Inr (JObj
       [(''machine_type'', JStr ''furnace''),
        (''schema_file'', JStr ''FactoryForge/Assets/furnace_schema.json''),
        (''errors'', JArr [JStr ''Missing value: flow is invalid'']),
        (''warnings'', JArr []),
        (''fixes_needed'', JArr []),
        (''schema_snippet'', JObj [])])
   \<and> JObj
       [(''machine_type'', JStr ''furnace''),
        (''schema_file'', JStr ''FactoryForge/Assets/furnace_schema.json''),
        (''errors'', JArr [JStr ''Missing value: flow is invalid'']),
        (''warnings'', JArr []),
        (''fixes_needed'', JArr []),
        (''schema_snippet'', JObj [])] \<noteq> no_test_results
   \<and> length ([] :: json list) \<le> length [JStr ''Missing value: flow is invalid'']
   \<and> contains ''missing'' (lower ''Missing value: flow is invalid'')
   \<and> \<not> contains ''not found'' (lower ''Missing value: flow is invalid'')
   \<and> \<not> contains ''header'' (lower ''Missing value: flow is invalid'')
   \<and> \<not> (contains ''process'' (lower ''Missing value: flow is invalid'')
        \<and> contains ''label'' (lower ''Missing value: flow is invalid''))
   \<and> contains ''invalid'' (lower ''Missing value: flow is invalid'')
   \<and> contains ''flow'' (lower ''Missing value: flow is invalid'')
   \<and> analyze_error default_config ''furnace'' [] ''Missing value: flow is invalid'' = []"
proof -
  let ?error = "''Missing value: flow is invalid''"
  note words = swallowed_words(1)
  note more = swallowed_words(2)
  have differs: "JObj
       [(''machine_type'', JStr ''furnace''),
        (''schema_file'', JStr ''FactoryForge/Assets/furnace_schema.json''),
        (''errors'', JArr [JStr ''Missing value: flow is invalid'']),
        (''warnings'', JArr []),
        (''fixes_needed'', JArr []),
        (''schema_snippet'', JObj [])] \<noteq> no_test_results"
    by (simp add: no_test_results_def)
  have dropped: "analyze_error default_config ''furnace'' [] ?error = []"
    using one_entry_per_error
      [of default_config "''furnace''" "after_test (failed_result [?error])"] words
    by blast
  from swallowed_returned differs words more dropped show ?thesis by simp
qed

section \<open>The sentinel of the suggestion generator\<close>

text \<open>
  Claim C7, as stated: the sentinel is returned exactly when no test result exists for the
  key, and a normal suggestions object whenever one exists. It fails twice. A result file
  that exists and holds the empty object \<^verbatim>\<open>{}\<close> (the stored reply of the service) gives
  the sentinel; and with a stored test result, a schema file that is not JSON makes the
  generator raise instead of returning a suggestions object.
\<close>

theorem sentinel_iff_empty_result_counterexample:
  "node_at (after_test (JObj [])) (result_file default_config ''furnace'') = File ''{}''
   \<and> get_fix_suggestions default_config (after_test (JObj [])) ''furnace'' = Inr no_test_results
   \<and> node_at (corrupt_schema (after_test (failed_result [''flow is invalid''])))
         (result_file default_config ''furnace'')
       = File (json_dumps (failed_result [''flow is invalid'']))
   \<and> load_test_results default_config
         (corrupt_schema (after_test (failed_result [''flow is invalid'']))) ''furnace''
       = Inr (failed_result [''flow is invalid''])
   \<and> get_fix_suggestions default_config
         (corrupt_schema (after_test (failed_result [''flow is invalid'']))) ''furnace''
       = Inl (JSONDecodeError ''Expecting property name enclosed in double quotes'')"
  by code_simp

text \<open>
  Claim C7, amended. The generator returns the sentinel exactly when both files load and
  the loaded test result is empty (false as a condition: no result file, or a stored
  \<^verbatim>\<open>{}\<close>, \<^verbatim>\<open>[]\<close>, \<^verbatim>\<open>""\<close>, \<^verbatim>\<open>0\<close>, \<^verbatim>\<open>false\<close> or \<^verbatim>\<open>null\<close>). Anything else it
  returns is a normal suggestions object with the six fields; and it does return one when
  the loaded result is a non-empty object whose \<^verbatim>\<open>errors\<close> is a list of strings and the
  schema loads and is empty or has a summary.
\<close>

theorem sentinel_iff_empty_result:
  "(get_fix_suggestions cfg fs machine_type = Inr no_test_results \<longleftrightarrow>
      (\<exists>test_result schema.
         load_test_results cfg fs machine_type = Inr test_result
         \<and> load_schema cfg fs machine_type = Inr schema
         \<and> \<not> truthy test_result))
   \<and> (\<forall>suggestions.
        get_fix_suggestions cfg fs machine_type = Inr suggestions
        \<and> suggestions \<noteq> no_test_results \<longrightarrow>
        (\<exists>errors warnings fixes_needed snippet. suggestions = JObj
           [(''machine_type'', JStr machine_type),
            (''schema_file'', JStr (schema_file cfg machine_type)),
            (''errors'', errors),
            (''warnings'', warnings),
            (''fixes_needed'', JArr fixes_needed),
            (''schema_snippet'', snippet)]))
   \<and> (\<forall>kvs errors schema.
        load_test_results cfg fs machine_type = Inr (JObj kvs)
        \<and> kvs \<noteq> []
        \<and> map_of kvs ''errors'' = Some (JArr (map JStr errors))
        \<and> load_schema cfg fs machine_type = Inr schema
        \<and> (truthy schema \<longrightarrow> (\<exists>snippet. schema_snippet schema = Inr snippet)) \<longrightarrow>
        (\<exists>suggestions. get_fix_suggestions cfg fs machine_type = Inr suggestions
           \<and> suggestions \<noteq> no_test_results))"
proof (intro conjI allI impI)
  show "get_fix_suggestions cfg fs machine_type = Inr no_test_results \<longleftrightarrow>
      (\<exists>test_result schema.
         load_test_results cfg fs machine_type = Inr test_result
         \<and> load_schema cfg fs machine_type = Inr schema
         \<and> \<not> truthy test_result)"
  proof
    assume "get_fix_suggestions cfg fs machine_type = Inr no_test_results"
    from get_fix_suggestions_Inr [OF this]
    show "\<exists>test_result schema.
         load_test_results cfg fs machine_type = Inr test_result
         \<and> load_schema cfg fs machine_type = Inr schema
         \<and> \<not> truthy test_result"
      by (auto simp: no_test_results_def split: if_splits)
  next
    assume "\<exists>test_result schema.
         load_test_results cfg fs machine_type = Inr test_result
         \<and> load_schema cfg fs machine_type = Inr schema
         \<and> \<not> truthy test_result"
    then show "get_fix_suggestions cfg fs machine_type = Inr no_test_results"
      by (auto simp: get_fix_suggestions_def exn_bind_Inr)
  qed
next
  fix suggestions
  assume "get_fix_suggestions cfg fs machine_type = Inr suggestions
        \<and> suggestions \<noteq> no_test_results"
  with get_fix_suggestions_Inr [of cfg fs machine_type suggestions]
  show "\<exists>errors warnings fixes_needed snippet. suggestions = JObj
           [(''machine_type'', JStr machine_type),
            (''schema_file'', JStr (schema_file cfg machine_type)),
            (''errors'', errors),
            (''warnings'', warnings),
            (''fixes_needed'', JArr fixes_needed),
            (''schema_snippet'', snippet)]"
    by (auto split: if_splits)
next
  fix kvs errors schema
  assume "load_test_results cfg fs machine_type = Inr (JObj kvs)
        \<and> kvs \<noteq> []
        \<and> map_of kvs ''errors'' = Some (JArr (map JStr errors))
        \<and> load_schema cfg fs machine_type = Inr schema
        \<and> (truthy schema \<longrightarrow> (\<exists>snippet. schema_snippet schema = Inr snippet))"
  then show "\<exists>suggestions. get_fix_suggestions cfg fs machine_type = Inr suggestions
           \<and> suggestions \<noteq> no_test_results"
    using get_fix_suggestions_returns [of cfg fs machine_type kvs errors schema] by blast
qed

theorem sentinel_iff_empty_result_witness:
  "load_test_results default_config empty_fs ''furnace'' = Inr (JObj [])
   \<and> load_schema default_config empty_fs ''furnace'' = Inr (JObj [])
   \<and> \<not> truthy (JObj [])
   \<and> get_fix_suggestions default_config empty_fs ''furnace'' = Inr no_test_results
   \<and> load_test_results default_config (after_test (failed_result [''unknown''])) ''furnace''
       = Inr (JObj [(''success'', JBool False), (''errors'', JArr (map JStr [''unknown''])),
                    (''warnings'', JArr [])])
   \<and> map_of [(''success'', JBool False), (''errors'', JArr (map JStr [''unknown''])),
              (''warnings'', JArr [])] ''errors'' = Some (JArr (map JStr [''unknown'']))
   \<and> load_schema default_config (after_test (failed_result [''unknown''])) ''furnace''
       = Inr (JObj [])
   \<and> (\<exists>suggestions errors warnings fixes_needed snippet.
         get_fix_suggestions default_config (after_test (failed_result [''unknown''])) ''furnace''
           = Inr suggestions
       \<and> suggestions \<noteq> no_test_results
       \<and> suggestions = JObj
           [(''machine_type'', JStr ''furnace''),
            (''schema_file'', JStr (schema_file default_config ''furnace'')),
            (''errors'', errors),
            (''warnings'', warnings),
            (''fixes_needed'', JArr fixes_needed),
            (''schema_snippet'', snippet)])"
proof -
  let ?fs = "after_test (failed_result [''unknown''])"
  let ?kvs = "[(''success'', JBool False), (''errors'', JArr (map JStr [''unknown''])),
               (''warnings'', JArr [])]"
  have absent: "load_test_results default_config empty_fs ''furnace'' = Inr (JObj [])"
    "load_schema default_config empty_fs ''furnace'' = Inr (JObj [])"
    by (rule empty_fs_loads)+
  have false: "\<not> truthy (JObj [])"
    by simp
  have sentinel: "get_fix_suggestions default_config empty_fs ''furnace'' = Inr no_test_results"
    using sentinel_iff_empty_result [of default_config empty_fs "''furnace''"] absent false
    by blast
  have loaded: "load_test_results default_config ?fs ''furnace'' = Inr (JObj ?kvs)"
    using after_test_load_result [OF wf_failed_result, of "[''unknown'']"]
    by (simp add: failed_result_def)
  have errors: "map_of ?kvs ''errors'' = Some (JArr (map JStr [''unknown'']))"
    by simp
  have schema: "load_schema default_config ?fs ''furnace'' = Inr (JObj [])"
    by (rule after_test_load_schema)
  have nonempty: "?kvs \<noteq> []"
    by simp
  from sentinel_iff_empty_result [of default_config ?fs "''furnace''"]
    loaded nonempty errors schema false
  have "\<exists>suggestions. get_fix_suggestions default_config ?fs ''furnace'' = Inr suggestions
           \<and> suggestions \<noteq> no_test_results"
    by blast
  then obtain suggestions where
    returned: "get_fix_suggestions default_config ?fs ''furnace'' = Inr suggestions
                 \<and> suggestions \<noteq> no_test_results"
    by blast
  with sentinel_iff_empty_result [of default_config ?fs "''furnace''"]
  have "\<exists>errors warnings fixes_needed snippet. suggestions = JObj
           [(''machine_type'', JStr ''furnace''),
            (''schema_file'', JStr (schema_file default_config ''furnace'')),
            (''errors'', errors),
            (''warnings'', warnings),
            (''fixes_needed'', JArr fixes_needed),
            (''schema_snippet'', snippet)]"
    by blast
  with returned absent false sentinel loaded errors schema show ?thesis
    by blast
qed

section \<open>The verify flow\<close>

text \<open>
  Claim C6. When the test call of \<open>verify_fix\<close> reports success, the result is
  \<^verbatim>\<open>{success: true, test_result}\<close> with the result of the test, for every outcome
  \<open>reload_reply\<close> of the reload call: a reload that fails changes neither the returned
  value nor the files.
\<close>

theorem verify_fix_reload_not_fatal:
  assumes "test_schema cfg test_reply fs machine_type = (fs1, test_result)"
    and "py_get test_result ''success'' JNull = Inr ok"
    and "truthy ok"
  shows "verify_fix cfg test_reply reload_reply fs machine_type
     = (fs1, Inr (JObj [(''success'', JBool True), (''test_result'', test_result)]))"
  using assms by (simp add: verify_fix_def)

theorem verify_fix_reload_not_fatal_witness:
  "test_schema default_config (ok_reply (JObj [(''success'', JBool True), (''errors'', JArr []), (''warnings'', JArr [])])) empty_fs ''furnace''
     = (after_test (JObj [(''success'', JBool True), (''errors'', JArr []), (''warnings'', JArr [])]),
        JObj [(''success'', JBool True), (''errors'', JArr []), (''warnings'', JArr [])])
   \<and> py_get (JObj [(''success'', JBool True), (''errors'', JArr []), (''warnings'', JArr [])]) ''success'' JNull
       = Inr (JBool True)
   \<and> truthy (JBool True)
   \<and> reload_schema (NetworkError ''Connection refused'') = JBool False
   \<and> verify_fix default_config
        (ok_reply (JObj [(''success'', JBool True), (''errors'', JArr []), (''warnings'', JArr [])]))
        (NetworkError ''Connection refused'') empty_fs ''furnace''
       = (after_test (JObj [(''success'', JBool True), (''errors'', JArr []), (''warnings'', JArr [])]),
          Inr (JObj [(''success'', JBool True),
                     (''test_result'', JObj [(''success'', JBool True), (''errors'', JArr []), (''warnings'', JArr [])])]))"
proof -
  let ?result = "JObj [(''success'', JBool True), (''errors'', JArr []), (''warnings'', JArr [])]"
  have tested: "test_schema default_config (ok_reply ?result) empty_fs ''furnace''
                  = (after_test ?result, ?result)"
    by (simp add: after_test_def tested_key_def test_schema_ok empty_fs_def)
  have ok: "py_get ?result ''success'' JNull = Inr (JBool True)"
    by simp
  have true: "truthy (JBool True)"
    by simp
  have reload: "reload_schema (NetworkError ''Connection refused'') = JBool False"
    by (simp add: reload_schema_def post_command_def)
  from verify_fix_reload_not_fatal [OF tested ok true, of "NetworkError ''Connection refused''"]
    tested ok true reload
  show ?thesis by simp
qed

section \<open>The prompt\<close>

text \<open>
  A text occurs in two pieces joined by a character it does not contain only if it occurs
  in one of the pieces; cutting a string short adds no occurrence; and a line of a text
  occurs in it.
\<close>

lemma contains_append_sep:
  assumes "c \<notin> set p"
  shows "contains p (a @ c # b) = (contains p a \<or> contains p b)"
proof -
  have crossing: "sublist p a"
    if "p = p1 @ p2" "suffix p1 a" "prefix p2 (c # b)" for p1 p2
  proof (cases p2)
    case Nil
    with that show ?thesis by simp
  next
    case (Cons x rest)
    with that(3) have "x = c" by simp
    with Cons that(1) assms show ?thesis by simp
  qed
  have head: "sublist p a" if "prefix p (c # b)"
  proof (cases p)
    case Nil
    then show ?thesis by simp
  next
    case (Cons x rest)
    with that have "x = c" by simp
    with Cons assms show ?thesis by simp
  qed
  show ?thesis
    unfolding contains_def sublist_append sublist_Cons_right
    using crossing head by blast
qed

lemma contains_take: "\<not> contains p s \<Longrightarrow> \<not> contains p (take n s)"
  unfolding contains_def
  by (meson sublist_take sublist_order.order_trans)

lemma split_on_first:
  "split_on c s \<noteq> [] \<and> prefix (hd (split_on c s)) s"
  by (induction s) (auto split: list.splits)

lemma split_on_sublist: "l \<in> set (split_on c s) \<Longrightarrow> sublist l s"
proof (induction s arbitrary: l)
  case Nil
  then show ?case by simp
next
  case (Cons x xs)
  show ?case
  proof (cases "x = c")
    case True
    with Cons.prems have "l = [] \<or> l \<in> set (split_on c xs)"
      by simp
    with Cons.IH show ?thesis
      by (auto intro: sublist_Cons_right [THEN iffD2])
  next
    case False
    obtain part parts where parts: "split_on c xs = part # parts"
      using split_on_first [of c xs] by (cases "split_on c xs") auto
    with split_on_first [of c xs] have first: "prefix part xs"
      by simp
    from Cons.prems False parts have "l = x # part \<or> l \<in> set parts"
      by simp
    then show ?thesis
    proof
      assume "l = x # part"
      with first show ?thesis
        by (simp add: sublist_Cons_right)
    next
      assume "l \<in> set parts"
      with parts have "l \<in> set (split_on c xs)"
        by simp
      from Cons.IH [OF this] show ?thesis
        by (simp add: sublist_Cons_right)
    qed
  qed
qed

lemma has_line_contains: "has_line line text \<Longrightarrow> contains line text"
  unfolding has_line_def contains_def by (rule split_on_sublist)

lemma no_errors_heading:
  assumes "\<not> contains ''### Errors:'' machine_type"
    and "\<not> contains ''### Errors:'' location"
    and "\<not> contains ''### Errors:'' dump"
  shows "\<not> contains ''### Errors:'' (prompt_head machine_type @ prompt_tail location dump)"
  using assms
  by (simp add: prompt_head_def prompt_tail_def contains_append_sep contains_take eval_contains)

lemma no_warnings_heading:
  assumes "\<not> contains ''### Warnings:'' machine_type"
    and "\<not> contains ''### Warnings:'' location"
    and "\<not> contains ''### Warnings:'' dump"
  shows "\<not> contains ''### Warnings:'' (prompt_head machine_type @ prompt_tail location dump)"
  using assms
  by (simp add: prompt_head_def prompt_tail_def contains_append_sep contains_take eval_contains)

lemma prompt_without_issues:
  assumes "load_test_results cfg fs machine_type = Inr (JObj kvs)"
    and "map_of kvs ''errors'' = Some (JArr [])"
    and "map_of kvs ''warnings'' = Some (JArr [])"
    and "load_schema cfg fs machine_type = Inr schema"
    and "truthy schema \<longrightarrow> (\<exists>snippet. schema_snippet schema = Inr snippet)"
  shows "generate_llm_prompt cfg fs machine_type
     = Inr (prompt_head machine_type
            @ prompt_tail (schema_file cfg machine_type) (json_dumps schema))"
proof -
  from assms(2) have nonempty: "kvs \<noteq> []" by auto
  obtain snippet where
    snippet: "(if truthy schema then schema_snippet schema else Inr (JObj [])) = Inr snippet"
    using assms(5) by (cases "truthy schema") auto
  have suggestions: "get_fix_suggestions cfg fs machine_type = Inr (JObj
             [(''machine_type'', JStr machine_type),
              (''schema_file'', JStr (schema_file cfg machine_type)),
              (''errors'', JArr []),
              (''warnings'', JArr []),
              (''fixes_needed'', JArr []),
              (''schema_snippet'', snippet)])"
    unfolding get_fix_suggestions_def
    by (simp add: assms(1,2,3,4) nonempty snippet exn_bind_Inr)
  show ?thesis
    unfolding generate_llm_prompt_def
    by (simp add: suggestions assms(4) exn_bind_Inr bullet_section_def fixes_section_def
        py_str_def)
qed

text \<open>
  Claim C9, as stated: with a test result whose errors and warnings are empty, the prompt
  contains neither the heading \<^verbatim>\<open>### Errors:\<close> nor the heading \<^verbatim>\<open>### Warnings:\<close>, for
  every key. The key goes into the title and into the schema path as it is: for a key
  whose second line is \<^verbatim>\<open>### Errors:\<close>, the second line of the prompt is that heading.
  And the text of the schema is quoted in the prompt: with a schema that holds the string
  \<^verbatim>\<open>### Warnings:\<close>, the prompt contains that text (inside a line, not as a heading).
\<close>

theorem prompt_without_headings_counterexample:
  "load_test_results default_config
       (tested_key ''x\<newline>### Errors:'' (failed_result [])) ''x\<newline>### Errors:''
     = Inr (JObj [(''success'', JBool False), (''errors'', JArr []), (''warnings'', JArr [])])
   \<and> generate_llm_prompt default_config
         (tested_key ''x\<newline>### Errors:'' (failed_result [])) ''x\<newline>### Errors:''
       = Inr (prompt_head ''x\<newline>### Errors:''
              @ prompt_tail ''FactoryForge/Assets/x\<newline>### Errors:_schema.json'' ''{}'')
   \<and> has_line ''### Errors:''
         (prompt_head ''x\<newline>### Errors:''
          @ prompt_tail ''FactoryForge/Assets/x\<newline>### Errors:_schema.json'' ''{}'')
   \<and> load_test_results default_config
         (fst (save_schema default_config (after_test (failed_result [])) ''furnace''
                 (PDict [(PStr ''note'', PStr ''### Warnings:'')])))
         ''furnace''
       = Inr (JObj [(''success'', JBool False), (''errors'', JArr []), (''warnings'', JArr [])])
   \<and> generate_llm_prompt default_config
         (fst (save_schema default_config (after_test (failed_result [])) ''furnace''
                 (PDict [(PStr ''note'', PStr ''### Warnings:'')])))
         ''furnace''
       = Inr (prompt_head ''furnace''
              @ prompt_tail ''FactoryForge/Assets/furnace_schema.json''
                  (json_dumps (JObj [(''note'', JStr ''### Warnings:'')])))
   \<and> contains ''### Warnings:''
         (prompt_head ''furnace''
          @ prompt_tail ''FactoryForge/Assets/furnace_schema.json''
              (json_dumps (JObj [(''note'', JStr ''### Warnings:'')])))"
  by code_simp

text \<open>
  Claim C9, amended. With a test result whose errors and warnings are empty lists, and a
  schema that loads and is empty or has a summary (\<open>schema_snippet\<close> returns for it), the
  prompt is generated, and it contains neither \<^verbatim>\<open>### Errors:\<close> nor \<^verbatim>\<open>### Warnings:\<close>,
  as a heading line or anywhere else, provided that the key, the schema file path and the
  JSON text of the schema do not contain them: the formatter itself adds neither heading.
\<close>

theorem prompt_without_headings:
  assumes "load_test_results cfg fs machine_type = Inr (JObj kvs)"
    and "map_of kvs ''errors'' = Some (JArr [])"
    and "map_of kvs ''warnings'' = Some (JArr [])"
    and "load_schema cfg fs machine_type = Inr schema"
    and "truthy schema \<longrightarrow> (\<exists>snippet. schema_snippet schema = Inr snippet)"
    and "\<not> contains ''### Errors:'' machine_type"
    and "\<not> contains ''### Errors:'' (schema_file cfg machine_type)"
    and "\<not> contains ''### Errors:'' (json_dumps schema)"
    and "\<not> contains ''### Warnings:'' machine_type"
    and "\<not> contains ''### Warnings:'' (schema_file cfg machine_type)"
    and "\<not> contains ''### Warnings:'' (json_dumps schema)"
  shows "\<exists>prompt. generate_llm_prompt cfg fs machine_type = Inr prompt
     \<and> \<not> contains ''### Errors:'' prompt
     \<and> \<not> contains ''### Warnings:'' prompt
     \<and> \<not> has_line ''### Errors:'' prompt
     \<and> \<not> has_line ''### Warnings:'' prompt"
  using prompt_without_issues [OF assms(1-5)]
    no_errors_heading [OF assms(6-8)] no_warnings_heading [OF assms(9-11)]
    has_line_contains
  by auto

lemma furnace_texts:
  "\<not> contains ''### Errors:'' ''furnace''"
  "\<not> contains ''### Errors:'' (schema_file default_config ''furnace'')"
  "\<not> contains ''### Errors:'' (json_dumps (JObj []))"
  "\<not> contains ''### Warnings:'' ''furnace''"
  "\<not> contains ''### Warnings:'' (schema_file default_config ''furnace'')"
  "\<not> contains ''### Warnings:'' (json_dumps (JObj []))"
  by code_simp+

theorem prompt_without_headings_witness:
  "load_test_results default_config (after_test (failed_result [])) ''furnace''
     = Inr (JObj [(''success'', JBool False), (''errors'', JArr []), (''warnings'', JArr [])])
   \<and> map_of [(''success'', JBool False), (''errors'', JArr []), (''warnings'', JArr [])] ''errors''
       = Some (JArr [])
   \<and> map_of [(''success'', JBool False), (''errors'', JArr []), (''warnings'', JArr [])] ''warnings''
       = Some (JArr [])
   \<and> load_schema default_config (after_test (failed_result [])) ''furnace'' = Inr (JObj [])
   \<and> \<not> truthy (JObj [])
   \<and> \<not> contains ''### Errors:'' ''furnace''
   \<and> \<not> contains ''### Errors:'' (schema_file default_config ''furnace'')
   \<and> \<not> contains ''### Errors:'' (json_dumps (JObj []))
   \<and> \<not> contains ''### Warnings:'' ''furnace''
   \<and> \<not> contains ''### Warnings:'' (schema_file default_config ''furnace'')
   \<and> \<not> contains ''### Warnings:'' (json_dumps (JObj []))
   \<and> (\<exists>prompt.
         generate_llm_prompt default_config (after_test (failed_result [])) ''furnace''
           = Inr prompt
       \<and> \<not> contains ''### Errors:'' prompt
       \<and> \<not> contains ''### Warnings:'' prompt
       \<and> \<not> has_line ''### Errors:'' prompt
       \<and> \<not> has_line ''### Warnings:'' prompt)"
proof -
  let ?fs = "after_test (failed_result [])"
  let ?kvs = "[(''success'', JBool False), (''errors'', JArr []), (''warnings'', JArr [])]"
  have loaded: "load_test_results default_config ?fs ''furnace'' = Inr (JObj ?kvs)"
    using after_test_load_result [OF wf_failed_result, of "[]"]
    by (simp add: failed_result_def)
  have errors: "map_of ?kvs ''errors'' = Some (JArr [])"
    and warnings: "map_of ?kvs ''warnings'' = Some (JArr [])"
    by simp_all
  have schema: "load_schema default_config ?fs ''furnace'' = Inr (JObj [])"
    by (rule after_test_load_schema)
  have usable: "truthy (JObj []) \<longrightarrow> (\<exists>snippet. schema_snippet (JObj []) = Inr snippet)"
    by simp
  have false: "\<not> truthy (JObj [])"
    by simp
  note texts = furnace_texts
  have "\<exists>prompt. generate_llm_prompt default_config ?fs ''furnace'' = Inr prompt
       \<and> \<not> contains ''### Errors:'' prompt
       \<and> \<not> contains ''### Warnings:'' prompt
       \<and> \<not> has_line ''### Errors:'' prompt
       \<and> \<not> has_line ''### Warnings:'' prompt"
    by (rule prompt_without_headings [OF loaded errors warnings schema usable texts])
  then show ?thesis
    by (intro conjI loaded errors warnings schema false texts)
qed

section \<open>The fix flow\<close>

text \<open>
  Claim C1: whenever the initial test does not report success, \<open>run_fix_workflow\<close>
  writes the prompt and returns the dictionary with \<^verbatim>\<open>fixes_needed\<close>, without an
  uncaught exception, also when the test call failed and no result file exists. The code
  does not: with the service unreachable and no result file, \<open>get_fix_suggestions\<close>
  returns the sentinel, and \<open>generate_llm_prompt\<close> subscripts it with
  \<^verbatim>\<open>'schema_file'\<close>. The run for \<^verbatim>\<open>furnace\<close> on an empty output directory ends with
  that \<^verbatim>\<open>KeyError\<close>, no prompt file written.
\<close>

theorem fix_workflow_sentinel_crash:
  "run_fix_workflow default_config (NetworkError ''Connection refused'') empty_fs ''furnace''
     = (empty_fs, Inl (KeyError ''schema_file''))"
  by (simp add: run_fix_workflow_def test_schema_def post_command_def failure_def
      get_fix_suggestions_def generate_llm_prompt_def empty_fs_loads exn_bind_Inr exn_bind_Inl
      no_test_results_def bullet_section_def fixes_section_def)

text \<open>
  The same for every key, every failure of the test call and every schema that loads, as
  long as no result file exists; and, for comparison, a run in which the service answers
  with a failed test result, which returns as the claim says.
\<close>

lemma fix_workflow_without_result:
  assumes "post_command reply = Inl msg"
    and "node_at fs (result_file cfg machine_type) = Missing"
    and "load_schema cfg fs machine_type = Inr schema"
  shows "run_fix_workflow cfg reply fs machine_type = (fs, Inl (KeyError ''schema_file''))"
proof -
  from assms(1) have tested: "test_schema cfg reply fs machine_type = (fs, failure msg)"
    by (simp add: test_schema_def)
  from assms(2) have loaded: "load_test_results cfg fs machine_type = Inr (JObj [])"
    by (simp add: load_test_results_def load_json_file_def)
  have suggestions: "get_fix_suggestions cfg fs machine_type = Inr no_test_results"
    by (simp add: get_fix_suggestions_def loaded assms(3) exn_bind_Inr)
  have prompt: "generate_llm_prompt cfg fs machine_type = Inl (KeyError ''schema_file'')"
    by (simp add: generate_llm_prompt_def suggestions assms(3) exn_bind_Inr exn_bind_Inl
        no_test_results_def bullet_section_def fixes_section_def)
  show ?thesis
    by (simp add: run_fix_workflow_def tested failure_def suggestions prompt)
qed

lemma fix_workflow_with_result:
  "snd (run_fix_workflow default_config (ok_reply (failed_result [''flow is invalid''])) empty_fs
          ''furnace'')
   = Inr (JObj
       [(''success'', JBool False),
        (''fixes_needed'', JBool True),
        (''prompt_file'', JStr ''.machine-ui-test-results/furnace_fix_prompt.md''),
        (''schema_file'', JStr ''FactoryForge/Assets/furnace_schema.json''),
        (''suggestions'', JObj
          [(''machine_type'', JStr ''furnace''),
           (''schema_file'', JStr ''FactoryForge/Assets/furnace_schema.json''),
           (''errors'', JArr [JStr ''flow is invalid'']),
           (''warnings'', JArr []),
           (''fixes_needed'', JArr
             [JObj [(''issue'', JStr ''Invalid flow position''),
                    (''action'', JStr ''Check group anchor positions relative to process anchor''),
                    (''priority'', JStr ''medium''),
                    (''schema_section'', JStr ''groups'')]]),
           (''schema_snippet'', JObj [])])])"
  by code_simp

end
